theory Spec2Isabelle
  imports Main "HOL-Library.List_Lexorder" "HOL-Library.Sublist"
begin

section \<open>Python values\<close>

text \<open>
  A Python \<open>str\<close> is a sequence of Unicode code points, and \<open>len\<close> counts code
  points, so a string is modelled as the list of its code points. \<open>lit\<close> embeds an
  ASCII literal of the source. The order of \<open>HOL-Library.List_Lexorder\<close> on such lists
  is Python's order on strings (lexicographic by code point, a proper prefix first).
\<close>

type_synonym pystr = "nat list"

definition lit :: "string \<Rightarrow> pystr" where
  "lit s = map of_char s"

text \<open>
  The objects the program handles: what \<open>response.json()\<close> can return (\<open>None\<close>,
  booleans, integers, floats, strings, lists, dictionaries with string keys), which are
  also the cells of a table. Floats are only stored and passed on, never computed with;
  \<open>NaN\<close> is the value pandas puts into a missing cell.
\<close>

datatype pyfloat = Finite int int | Infinite bool | NaN

datatype pyval =
    PNone
  | PBool bool
  | PInt int
  | PFloat pyfloat
  | PStr pystr
  | PList "pyval list"
  | PDict "(pystr \<times> pyval) list"

type_synonym pydict = "(pystr \<times> pyval) list"

text \<open>
  Exceptions, all of them subclasses of \<open>Exception\<close> (what \<open>except Exception\<close>
  catches). A function of the program returns \<open>Inl e\<close> when the exception \<open>e\<close> leaves
  it and \<open>Inr v\<close> when it returns \<open>v\<close>.
  \<^item> \<open>LibraryError m\<close>: raised inside a library call (requests, json, bs4, pandas,
    tabulate); \<open>m\<close> is \<open>str(e)\<close>.
  \<^item> \<open>KeyError k\<close>: the table has no column \<open>k\<close>.
  \<^item> \<open>AttributeError v a\<close>: the object \<open>v\<close> has no attribute \<open>a\<close>.
  \<^item> \<open>BadOperand v\<close>: the object \<open>v\<close> does not support the operation applied to it
    (slicing, iterating, hashing, joining): a \<open>TypeError\<close>.
  \<^item> \<open>UnicodeEncodeError i c\<close>: the code point \<open>c\<close> at position \<open>i\<close> has no UTF-8 encoding.
  \<^item> \<open>UnicodeDecodeError\<close>: the bytes are not UTF-8.
\<close>

datatype pyexc =
    LibraryError pystr
  | KeyError pystr
  | AttributeError pyval pystr
  | BadOperand pyval
  | UnicodeEncodeError nat nat
  | UnicodeDecodeError

section \<open>Tables (pandas.DataFrame)\<close>

text \<open>
  A table is its column labels, in order, and its rows, each a list of cells aligned
  with the labels. The row index is not modelled: the program never reads it. A cell
  holds the object it was built from; the numeric type pandas may choose for a column
  of numbers is not modelled, and where pandas treats a cell that is not a string in a
  way of its own (reading a row, grouping, formatting) the model asks the environment. The tables this
  program builds have distinct labels; what pandas does with a repeated label is not
  modelled, and the statements about grouping are for tables with distinct labels.
\<close>

record dataframe =
  columns :: "pystr list"
  rows :: "pyval list list"

text \<open>\<open>pd.DataFrame()\<close>: no column, no row.\<close>

definition DataFrame_empty :: dataframe where
  "DataFrame_empty = \<lparr>columns = [], rows = []\<rparr>"

text \<open>The elements of a list in the order of their first appearance.\<close>

definition first_seen :: "'a list \<Rightarrow> 'a list" where
  "first_seen xs = foldl (\<lambda>acc x. if x \<in> set acc then acc else acc @ [x]) [] xs"

text \<open>
  The cell of a row under a label; a label the row has no cell for reads as missing.
\<close>

definition cell :: "pystr list \<Rightarrow> pyval list \<Rightarrow> pystr \<Rightarrow> pyval" where
  "cell cols r name = (case map_of (zip cols r) name of Some v \<Rightarrow> v | None \<Rightarrow> PFloat NaN)"

text \<open>
  \<open>pd.DataFrame(records)\<close> for a list of dictionaries: the columns are the keys in the
  order of their first appearance, one row per dictionary, \<open>NaN\<close> where a dictionary
  lacks a key. An empty list gives the table with no column.
\<close>

definition DataFrame_records :: "pydict list \<Rightarrow> dataframe" where
  "DataFrame_records records =
     (let cols = first_seen (concat (map (map fst) records))
      in \<lparr>columns = cols,
          rows = map (\<lambda>d. map (\<lambda>c. case map_of d c of Some v \<Rightarrow> v | None \<Rightarrow> PFloat NaN) cols) records\<rparr>)"

text \<open>
  \<open>pd.DataFrame({"Distributor": names, "Country": country})\<close>: a column from a list and
  a column from a scalar, which is repeated on every row.
\<close>

definition DataFrame_distributors :: "pystr list \<Rightarrow> pyval \<Rightarrow> dataframe" where
  "DataFrame_distributors names country =
     \<lparr>columns = [lit ''Distributor'', lit ''Country''],
      rows = map (\<lambda>name. [PStr name, country]) names\<rparr>"

text \<open>
  \<open>pd.concat(frames, ignore_index=True)\<close>: the union of the columns in the order of
  their first appearance, the rows of the frames one after the other, \<open>NaN\<close> where a
  frame lacks a column.
\<close>

definition reindex :: "pystr list \<Rightarrow> dataframe \<Rightarrow> pyval list list" where
  "reindex cols df = map (\<lambda>r. map (\<lambda>c. cell (columns df) r c) cols) (rows df)"

definition pd_concat :: "dataframe list \<Rightarrow> dataframe" where
  "pd_concat frames =
     (let cols = first_seen (concat (map columns frames))
      in \<lparr>columns = cols, rows = concat (map (reindex cols) frames)\<rparr>)"

text \<open>\<open>df[name]\<close>: the cells of a column, \<open>KeyError\<close> when there is no such column.\<close>

definition column_cells :: "dataframe \<Rightarrow> pystr \<Rightarrow> pyexc + pyval list" where
  "column_cells df name =
     (if name \<in> set (columns df)
      then Inr (map (\<lambda>r. cell (columns df) r name) (rows df))
      else Inl (KeyError name))"

section \<open>Parsed pages (bs4)\<close>

text \<open>
  A parsed page is a tree: a tag has a name, attributes and children, a string is a
  leaf. \<open>BeautifulSoup(...)\<close> is the list of the top-level nodes.
\<close>

datatype node =
    Tag pystr "(pystr \<times> pystr) list" "node list"
  | NavigableString pystr

type_synonym soup = "node list"

fun descendants :: "node \<Rightarrow> node list" where
  "descendants (NavigableString s) = []"
| "descendants (Tag name attrs contents) = concat (map (\<lambda>c. c # descendants c) contents)"

text \<open>Every node of the page, in document order.\<close>

definition soup_descendants :: "soup \<Rightarrow> node list" where
  "soup_descendants sp = concat (map (\<lambda>c. c # descendants c) sp)"

fun is_tag_named :: "pystr list \<Rightarrow> node \<Rightarrow> bool" where
  "is_tag_named names (Tag name attrs contents) = (name \<in> set names)"
| "is_tag_named names (NavigableString s) = False"

fun has_attrs :: "(pystr \<times> pystr) list \<Rightarrow> node \<Rightarrow> bool" where
  "has_attrs wanted (Tag name attrs contents) = list_all (\<lambda>(k, v). map_of attrs k = Some v) wanted"
| "has_attrs wanted (NavigableString s) = False"

text \<open>\<open>soup.find_all(names)\<close>: the tags with one of the names, in document order.\<close>

definition find_all :: "soup \<Rightarrow> pystr list \<Rightarrow> node list" where
  "find_all sp names = filter (is_tag_named names) (soup_descendants sp)"

text \<open>\<open>soup.find(name, attrs=...)\<close>: the first such tag, or \<open>None\<close>.\<close>

definition find_tag :: "soup \<Rightarrow> pystr \<Rightarrow> (pystr \<times> pystr) list \<Rightarrow> node option" where
  "find_tag sp name wanted =
     (case filter (\<lambda>n. is_tag_named [name] n \<and> has_attrs wanted n) (soup_descendants sp) of
        [] \<Rightarrow> None
      | n # _ \<Rightarrow> Some n)"

text \<open>What \<open>str.isspace\<close> accepts, and \<open>str.strip()\<close>.\<close>

definition is_space :: "nat \<Rightarrow> bool" where
  "is_space c \<longleftrightarrow>
     (9 \<le> c \<and> c \<le> 13) \<or> (28 \<le> c \<and> c \<le> 32) \<or> c = 0x85 \<or> c = 0xA0 \<or> c = 0x1680 \<or>
     (0x2000 \<le> c \<and> c \<le> 0x200A) \<or> c = 0x2028 \<or> c = 0x2029 \<or> c = 0x202F \<or> c = 0x205F \<or>
     c = 0x3000"

definition strip :: "pystr \<Rightarrow> pystr" where
  "strip s = rev (dropWhile is_space (rev (dropWhile is_space s)))"

fun node_strings :: "node \<Rightarrow> pystr list" where
  "node_strings (NavigableString s) = [s]"
| "node_strings (Tag name attrs contents) = []"

text \<open>
  \<open>tag.get_text(strip=...)\<close>: the strings below the tag, in document order, joined
  with nothing between them; with \<open>strip=True\<close> each string is stripped first and the
  empty ones are left out. \<open>tag.text\<close> is \<open>get_text()\<close> without stripping.
\<close>

definition get_text :: "bool \<Rightarrow> node \<Rightarrow> pystr" where
  "get_text stripped n =
     (let strings = concat (map node_strings (descendants n))
      in if stripped then concat (filter (\<lambda>s. s \<noteq> []) (map strip strings))
         else concat strings)"

fun tag_attrs :: "node \<Rightarrow> (pystr \<times> pystr) list" where
  "tag_attrs (Tag name attrs contents) = attrs"
| "tag_attrs (NavigableString s) = []"

section \<open>The environment\<close>

text \<open>
  What the program receives from outside, as parameters of the model.
  \<^item> \<open>requests_get url headers\<close>: \<open>requests.get(url, headers=headers, timeout=10)\<close>;
    it raises (a timeout, a refused connection, too many redirects) or returns a response.
  \<^item> \<open>html_parser markup\<close>: \<open>BeautifulSoup(markup, 'html.parser')\<close>.
  \<^item> \<open>to_markdown df\<close>: \<open>df.to_markdown(index=False)\<close>, rendered by the optional
    package tabulate; it raises \<open>ImportError\<close> where the package is not installed.
  \<^item> \<open>read_csv\<close> is not a field: an uploaded file enters as the result of
    \<open>pd.read_csv\<close> on it.
  \<^item> \<open>groupby_other df\<close>: pandas' grouping by \<open>Country\<close> of a table with a cell in
    that column that is not a string (numbers, missing values, unhashable objects).
  \<^item> \<open>iterrows_other df r name\<close>: what \<open>row[name]\<close> is, for a row \<open>r\<close> that
    \<open>df.iterrows()\<close> hands out, when the cell is not a string: pandas gives a row the
    common type of its cells (an integer among floats is read as a float) and stores a
    null among strings as its own missing value.
  \<^item> \<open>format_value v\<close>: \<open>str(v)\<close> of an object that is not a string, as an
    f-string inserts it.
  \<^item> \<open>interpreter_message e\<close>: \<open>str(e)\<close> of an exception the interpreter raised;
    the wording differs between versions of CPython.
\<close>

record response =
  status_code :: int
  body_text :: pystr
  json_result :: "pyexc + pyval"
  http_error_msg :: pystr

record environment =
  requests_get :: "pystr \<Rightarrow> (pystr \<times> pystr) list \<Rightarrow> pyexc + response"
  html_parser :: "pystr \<Rightarrow> pyexc + soup"
  to_markdown :: "dataframe \<Rightarrow> pyexc + pystr"
  groupby_other :: "dataframe \<Rightarrow> pyexc + (pyval \<times> dataframe) list"
  iterrows_other :: "dataframe \<Rightarrow> pyval list \<Rightarrow> pystr \<Rightarrow> pyval"
  format_value :: "pyval \<Rightarrow> pystr"
  interpreter_message :: "pyexc \<Rightarrow> pystr"

text \<open>
  \<open>str(e)\<close>. A library's exception carries its message; \<open>str\<close> of a \<open>KeyError\<close> is
  the \<open>repr\<close> of the key, which for a column label of this program (letters only) is
  the label between single quotes.
\<close>

definition exc_str :: "environment \<Rightarrow> pyexc \<Rightarrow> pystr" where
  "exc_str env e =
     (case e of
        LibraryError m \<Rightarrow> m
      | KeyError k \<Rightarrow> lit [CHR 0x27] @ k @ lit [CHR 0x27]
      | _ \<Rightarrow> interpreter_message env e)"

text \<open>\<open>f"{v}"\<close>: a string is inserted as it is, another object through \<open>str\<close>.\<close>

definition format :: "environment \<Rightarrow> pyval \<Rightarrow> pystr" where
  "format env v = (case v of PStr s \<Rightarrow> s | _ \<Rightarrow> format_value env v)"

section \<open>Stage 3: the buyer list\<close>

definition buyers :: "pydict list" where
  "buyers =
     [[(lit ''Company'', PStr (lit ''ExportYeti Buyers Co.'')),
       (lit ''Country'', PStr (lit ''USA'')),
       (lit ''Contact'', PStr (lit ''contact@buyexportyeti.com''))],
      [(lit ''Company'', PStr (lit ''Global Import Ventures'')),
       (lit ''Country'', PStr (lit ''Mexico'')),
       (lit ''Contact'', PStr (lit ''sales@globalimport.mx''))],
      [(lit ''Company'', PStr (lit ''AsiaMed Devices'')),
       (lit ''Country'', PStr (lit ''Philippines'')),
       (lit ''Contact'', PStr (lit ''info@asiamed.ph''))]]"

text \<open>The body of the \<open>try\<close> of \<open>fetch_buyer_list\<close>, then the function with its handler.\<close>

definition fetch_buyer_list_try :: "pystr \<Rightarrow> pyexc + dataframe" where
  "fetch_buyer_list_try product_term = Inr (DataFrame_records buyers)"

definition fetch_buyer_list :: "environment \<Rightarrow> pystr \<Rightarrow> pyexc + dataframe" where
  "fetch_buyer_list env product_term =
     (case fetch_buyer_list_try product_term of
        Inr df \<Rightarrow> Inr df
      | Inl e \<Rightarrow>
          Inr (DataFrame_records
                 [[(lit ''Company'', PStr (lit ''Error'')),
                   (lit ''Country'', PStr []),
                   (lit ''Contact'', PStr (exc_str env e))]]))"

text \<open>\<open>x or "Mobility equipment"\<close>: the empty string is false.\<close>

definition or_default :: "pystr \<Rightarrow> pystr" where
  "or_default product_keywords =
     (if product_keywords = [] then lit ''Mobility equipment'' else product_keywords)"

text \<open>
  Lines 58-76, the buyer table of a run. \<open>uploaded_file\<close> is \<open>None\<close> when no file was
  uploaded, and otherwise the result of \<open>pd.read_csv\<close> on the file; a file that does
  not parse leaves the table as \<open>pd.DataFrame()\<close>.
\<close>

definition buyer_source ::
  "environment \<Rightarrow> (pyexc + dataframe) option \<Rightarrow> pystr \<Rightarrow> pyexc + dataframe" where
  "buyer_source env uploaded_file product_keywords =
     (case uploaded_file of
        Some (Inr df) \<Rightarrow> Inr df
      | Some (Inl e) \<Rightarrow> Inr DataFrame_empty
      | None \<Rightarrow> fetch_buyer_list env (or_default product_keywords))"

section \<open>Stage 1: the scraper\<close>

text \<open>
  \<open>r.raise_for_status()\<close> of requests: it raises \<open>HTTPError\<close> for a status from
  400 to 599 and returns for every other status.
\<close>

definition raise_for_status :: "response \<Rightarrow> pyexc + unit" where
  "raise_for_status r =
     (if 400 \<le> status_code r \<and> status_code r < 600
      then Inl (LibraryError (http_error_msg r))
      else Inr ())"

text \<open>The body of the \<open>try\<close> of \<open>scrape_site\<close> (lines 22-32).\<close>

definition scrape_site_try :: "environment \<Rightarrow> pystr \<Rightarrow> pyexc + pydict" where
  "scrape_site_try env url =
     (case requests_get env url [] of
        Inl e \<Rightarrow> Inl e
      | Inr r \<Rightarrow>
     (case raise_for_status r of
        Inl e \<Rightarrow> Inl e
      | Inr _ \<Rightarrow>
     (case html_parser env (body_text r) of
        Inl e \<Rightarrow> Inl e
      | Inr sp \<Rightarrow>
          (let title = (case find_tag sp (lit ''title'') [] of
                          Some t \<Rightarrow> get_text False t
                        | None \<Rightarrow> lit ''No title found'');
               meta = find_tag sp (lit ''meta'') [(lit ''name'', lit ''description'')];
               products = map (get_text True)
                            (filter (\<lambda>item. 5 < length (get_text True item))
                               (find_all sp [lit ''h1'', lit ''h2'', lit ''h3'']))
           in Inr [(lit ''Page Title'', PStr title),
                   (lit ''Meta Description'',
                      PStr (case meta of
                              Some m \<Rightarrow> (case map_of (tag_attrs m) (lit ''content'') of
                                           Some c \<Rightarrow> c
                                         | None \<Rightarrow> lit ''No description found'')
                            | None \<Rightarrow> lit ''No description found'')),
                   (lit ''Product Headings'', PList (map PStr (take 10 products)))]))))"

text \<open>\<open>scrape_site\<close>: the body, and the handler of \<open>except Exception\<close> (line 34).\<close>

definition scrape_site :: "environment \<Rightarrow> pystr \<Rightarrow> pyexc + pydict" where
  "scrape_site env url =
     (case scrape_site_try env url of
        Inr d \<Rightarrow> Inr d
      | Inl e \<Rightarrow> Inr [(lit ''error'', PStr (lit ''Unable to scrape site: '' @ exc_str env e))])"

text \<open>\<open>key in d\<close> and \<open>d[key]\<close> for a dictionary.\<close>

definition has_key :: "pydict \<Rightarrow> pystr \<Rightarrow> bool" where
  "has_key d key = (key \<in> set (map fst d))"

definition dict_get :: "pydict \<Rightarrow> pystr \<Rightarrow> pyval \<Rightarrow> pyval" where
  "dict_get d key dflt = (case map_of d key of Some v \<Rightarrow> v | None \<Rightarrow> dflt)"

text \<open>
  For the statements about the headings. The test of line 27 is on
  \<open>get_text(strip=True)\<close>: every string below the element is stripped on its own and
  the strings are joined with nothing between them, so \<open>New\<close> and \<open>in\<close> of
  \<open><h2>New <b>in</b></h2>\<close> give \<open>Newin\<close>. \<open>qualifying_headings\<close> are the heading
  elements of levels 1 to 3 that pass this test, in document order.
\<close>

definition qualifying_headings :: "soup \<Rightarrow> node list" where
  "qualifying_headings sp =
     filter (\<lambda>n. is_tag_named [lit ''h1'', lit ''h2'', lit ''h3''] n \<and> 5 < length (get_text True n))
       (soup_descendants sp)"

text \<open>
  The reading of the specification's words, \<open>whose trimmed length exceeds 5
  characters\<close>: the text of the element, trimmed at both ends, and the heading elements
  of levels 1 to 3 for which that text is longer than five characters.
\<close>

definition trimmed_text :: "node \<Rightarrow> pystr" where
  "trimmed_text n = strip (get_text False n)"

definition trimmed_headings :: "soup \<Rightarrow> node list" where
  "trimmed_headings sp =
     filter (\<lambda>n. is_tag_named [lit ''h1'', lit ''h2'', lit ''h3''] n \<and> 5 < length (trimmed_text n))
       (soup_descendants sp)"

section \<open>Stage 2: the market suggestor\<close>

text \<open>\<open>v.get(key, dflt)\<close>: only a dictionary has the method.\<close>

definition py_get :: "pyval \<Rightarrow> pystr \<Rightarrow> pyval \<Rightarrow> pyexc + pyval" where
  "py_get v key dflt =
     (case v of
        PDict kvs \<Rightarrow> Inr (dict_get kvs key dflt)
      | _ \<Rightarrow> Inl (AttributeError v (lit ''get'')))"

text \<open>\<open>v[:5]\<close>: a list and a string can be sliced.\<close>

definition py_slice5 :: "pyval \<Rightarrow> pyexc + pyval" where
  "py_slice5 v =
     (case v of
        PList xs \<Rightarrow> Inr (PList (take 5 xs))
      | PStr s \<Rightarrow> Inr (PStr (take 5 s))
      | _ \<Rightarrow> Inl (BadOperand v))"

text \<open>
  \<open>for item in v\<close>: the elements of a list, the characters of a string, the keys of a
  dictionary.
\<close>

definition py_iter :: "pyval \<Rightarrow> pyexc + pyval list" where
  "py_iter v =
     (case v of
        PList xs \<Rightarrow> Inr xs
      | PStr s \<Rightarrow> Inr (map (\<lambda>c. PStr [c]) s)
      | PDict kvs \<Rightarrow> Inr (map (\<lambda>kv. PStr (fst kv)) kvs)
      | _ \<Rightarrow> Inl (BadOperand v))"

text \<open>The loop of lines 45-49: one dictionary per item, until an item raises.\<close>

fun market_rows :: "pyval list \<Rightarrow> pyexc + pydict list" where
  "market_rows [] = Inr []"
| "market_rows (item # items) =
     (case py_get item (lit ''ptTitle'') (PStr (lit ''N/A'')) of
        Inl e \<Rightarrow> Inl e
      | Inr country \<Rightarrow>
     (case py_get item (lit ''rgDesc'') (PStr (lit ''N/A'')) of
        Inl e \<Rightarrow> Inl e
      | Inr score \<Rightarrow>
     (case market_rows items of
        Inl e \<Rightarrow> Inl e
      | Inr parsed \<Rightarrow>
          Inr ([(lit ''Country'', country), (lit ''Demand Score'', score)] # parsed))))"

definition comtrade_url :: "pystr \<Rightarrow> pystr" where
  "comtrade_url product_term =
     lit ''https://comtradeapi.un.org/public/v1/preview/C/A/2010/2022/TOTAL/'' @ product_term @
     lit ''?fmt=json''"

definition comtrade_headers :: "(pystr \<times> pystr) list" where
  "comtrade_headers = [(lit ''Ocp-Apim-Subscription-Key'', lit ''YOUR_COMTRADE_API_KEY'')]"

text \<open>The body of the \<open>try\<close> of \<open>suggest_markets\<close> (lines 39-50).\<close>

definition suggest_markets_try :: "environment \<Rightarrow> pystr \<Rightarrow> pyexc + dataframe" where
  "suggest_markets_try env product_term =
     (case requests_get env (comtrade_url product_term) comtrade_headers of
        Inl e \<Rightarrow> Inl e
      | Inr resp \<Rightarrow>
     (case raise_for_status resp of
        Inl e \<Rightarrow> Inl e
      | Inr _ \<Rightarrow>
     (case json_result resp of
        Inl e \<Rightarrow> Inl e
      | Inr data \<Rightarrow>
     (case py_get data (lit ''data'') (PList []) of
        Inl e \<Rightarrow> Inl e
      | Inr entries \<Rightarrow>
     (case py_slice5 entries of
        Inl e \<Rightarrow> Inl e
      | Inr first5 \<Rightarrow>
     (case py_iter first5 of
        Inl e \<Rightarrow> Inl e
      | Inr items \<Rightarrow>
     (case market_rows items of
        Inl e \<Rightarrow> Inl e
      | Inr parsed \<Rightarrow> Inr (DataFrame_records parsed))))))))"

text \<open>The table of the handler (line 52): one row, the message in the second column.\<close>

definition market_error_table :: "pystr \<Rightarrow> dataframe" where
  "market_error_table msg =
     DataFrame_records [[(lit ''Country'', PStr (lit ''Error'')), (lit ''Demand Score'', PStr msg)]]"

definition suggest_markets :: "environment \<Rightarrow> pystr \<Rightarrow> pyexc + dataframe" where
  "suggest_markets env product_term =
     (case suggest_markets_try env product_term of
        Inr df \<Rightarrow> Inr df
      | Inl e \<Rightarrow> Inr (market_error_table (exc_str env e)))"

section \<open>Stage 4: the distributor lookup\<close>

definition trusted :: "(pystr \<times> pystr list) list" where
  "trusted =
     [(lit ''USA'', [lit ''MedEquip USA'', lit ''Trusted Medical Supplies'']),
      (lit ''Mexico'', [lit ''Distribuciones SaludMX'', lit ''Grupo M'' @ [0xE9] @ lit ''dico MX'']),
      (lit ''Philippines'', [lit ''PhilMed Distributors'', lit ''Manila Health Corp''])]"

text \<open>A list and a dictionary cannot be the key of a dictionary lookup.\<close>

fun hashable :: "pyval \<Rightarrow> bool" where
  "hashable (PList xs) = False"
| "hashable (PDict kvs) = False"
| "hashable v = True"

text \<open>
  \<open>trusted.get(country, ["No trusted partners listed"])\<close>: the keys are strings, so
  only a string finds an entry.
\<close>

definition trusted_get :: "pyval \<Rightarrow> pyexc + pystr list" where
  "trusted_get country =
     (if hashable country
      then Inr (case country of
                  PStr c \<Rightarrow> (case map_of trusted c of
                               Some names \<Rightarrow> names
                             | None \<Rightarrow> [lit ''No trusted partners listed''])
                | _ \<Rightarrow> [lit ''No trusted partners listed''])
      else Inl (BadOperand country))"

definition find_trusted_distributors_try :: "pyval \<Rightarrow> pyexc + dataframe" where
  "find_trusted_distributors_try country =
     (case trusted_get country of
        Inl e \<Rightarrow> Inl e
      | Inr names \<Rightarrow> Inr (DataFrame_distributors names country))"

definition find_trusted_distributors :: "environment \<Rightarrow> pyval \<Rightarrow> pyexc + dataframe" where
  "find_trusted_distributors env country =
     (case find_trusted_distributors_try country of
        Inr df \<Rightarrow> Inr df
      | Inl e \<Rightarrow>
          Inr (DataFrame_records
                 [[(lit ''Distributor'', PStr (lit ''Error'')),
                   (lit ''Country'', country),
                   (lit ''Details'', PStr (exc_str env e))]]))"

text \<open>
  Line 147, \<open>[find_trusted_distributors(row['Country']) for _, row in
  market_df.iterrows() if row['Country'] not in ["Error", "Exception"]]\<close>:
  the rows in order, one call for each row that passes the test. \<open>row[name]\<close> is
  the string of the cell when the cell holds a string; for any other cell it is what
  pandas hands out for it, and \<open>KeyError\<close> when there is no such column.
\<close>

definition row_value :: "environment \<Rightarrow> dataframe \<Rightarrow> pyval list \<Rightarrow> pystr \<Rightarrow> pyval" where
  "row_value env df r name =
     (case cell (columns df) r name of
        PStr s \<Rightarrow> PStr s
      | _ \<Rightarrow> iterrows_other env df r name)"

definition row_get :: "environment \<Rightarrow> dataframe \<Rightarrow> pyval list \<Rightarrow> pystr \<Rightarrow> pyexc + pyval" where
  "row_get env df r name =
     (if name \<in> set (columns df) then Inr (row_value env df r name) else Inl (KeyError name))"

definition is_sentinel :: "pyval \<Rightarrow> bool" where
  "is_sentinel v = (v \<in> set [PStr (lit ''Error''), PStr (lit ''Exception'')])"

fun distributor_rows_loop ::
  "environment \<Rightarrow> dataframe \<Rightarrow> pyval list list \<Rightarrow> pyexc + dataframe list" where
  "distributor_rows_loop env market_df [] = Inr []"
| "distributor_rows_loop env market_df (r # rs) =
     (case row_get env market_df r (lit ''Country'') of
        Inl e \<Rightarrow> Inl e
      | Inr country \<Rightarrow>
          if \<not> is_sentinel country
          then (case find_trusted_distributors env country of
                  Inl e \<Rightarrow> Inl e
                | Inr df \<Rightarrow>
                    (case distributor_rows_loop env market_df rs of
                       Inl e \<Rightarrow> Inl e
                     | Inr dfs \<Rightarrow> Inr (df # dfs)))
          else distributor_rows_loop env market_df rs)"

definition distributor_df_list :: "environment \<Rightarrow> dataframe \<Rightarrow> pyexc + dataframe list" where
  "distributor_df_list env market_df = distributor_rows_loop env market_df (rows market_df)"



text \<open>Line 148: the tables of the calls put together, \<open>pd.DataFrame()\<close> when there is none.\<close>

definition distributors_df_of :: "dataframe list \<Rightarrow> dataframe" where
  "distributors_df_of dfs = (if dfs \<noteq> [] then pd_concat dfs else DataFrame_empty)"

section \<open>Stage 5: the report\<close>

text \<open>\<open>sep.join(parts)\<close> for a list of strings.\<close>

fun join :: "pystr \<Rightarrow> pystr list \<Rightarrow> pystr" where
  "join sep [] = []"
| "join sep [x] = x"
| "join sep (x # y # ys) = x @ sep @ join sep (y # ys)"

fun is_text :: "pyval \<Rightarrow> bool" where
  "is_text (PStr s) = True"
| "is_text v = False"

fun text_of :: "pyval \<Rightarrow> pystr" where
  "text_of (PStr s) = s"
| "text_of v = []"

text \<open>\<open>sep.join(v)\<close>: the object must be iterable and every item a string.\<close>

definition str_join :: "pystr \<Rightarrow> pyval \<Rightarrow> pyexc + pystr" where
  "str_join sep v =
     (case py_iter v of
        Inl e \<Rightarrow> Inl e
      | Inr items \<Rightarrow>
          if list_all is_text items then Inr (join sep (map text_of items))
          else Inl (BadOperand v))"

text \<open>
  \<open>df.groupby(name)\<close>, iterated: \<open>KeyError\<close> when there is no such column; otherwise
  one group per distinct key, the keys in ascending order (pandas sorts the group keys
  unless told \<open>sort=False\<close>), each group the rows with that key in their order in
  the table.
\<close>

definition groupby ::
  "environment \<Rightarrow> dataframe \<Rightarrow> pystr \<Rightarrow> pyexc + (pyval \<times> dataframe) list" where
  "groupby env df name =
     (case column_cells df name of
        Inl e \<Rightarrow> Inl e
      | Inr keys \<Rightarrow>
          if list_all is_text keys
          then Inr (map (\<lambda>k. (PStr k,
                              \<lparr>columns = columns df,
                               rows = filter (\<lambda>r. cell (columns df) r name = PStr k) (rows df)\<rparr>))
                      (sort (remdups (map text_of keys))))
          else groupby_other env df)"

text \<open>The results of a list of computations, or the first exception.\<close>

fun sequence_exc :: "(pyexc + 'a) list \<Rightarrow> pyexc + 'a list" where
  "sequence_exc [] = Inr []"
| "sequence_exc (x # xs) =
     (case x of
        Inl e \<Rightarrow> Inl e
      | Inr v \<Rightarrow> (case sequence_exc xs of Inl e \<Rightarrow> Inl e | Inr vs \<Rightarrow> Inr (v # vs)))"

text \<open>Lines 94-95: the heading of a group and one bullet per distributor.\<close>

definition group_section :: "environment \<Rightarrow> pyval \<times> dataframe \<Rightarrow> pyexc + pystr" where
  "group_section env g =
     (case column_cells (snd g) (lit ''Distributor'') of
        Inl e \<Rightarrow> Inl e
      | Inr names \<Rightarrow>
          Inr (lit ''**'' @ format env (fst g) @ lit '' Distributors:**\<newline>'' @
               join (lit ''\<newline>'') (map (\<lambda>name. lit ''- '' @ format env name) names)))"

text \<open>Lines 93-97, \<open>dist_sections\<close>.\<close>

definition dist_sections :: "environment \<Rightarrow> dataframe \<Rightarrow> pyexc + pystr" where
  "dist_sections env distributors_by_market =
     (case groupby env distributors_by_market (lit ''Country'') of
        Inl e \<Rightarrow> Inl e
      | Inr groups \<Rightarrow>
          (case sequence_exc (map (group_section env) groups) of
             Inl e \<Rightarrow> Inl e
           | Inr sections \<Rightarrow> Inr (join (lit ''\<newline>\<newline>'') sections)))"

text \<open>
  The f-string of lines 99-117, with the six inserted texts as arguments. Every line
  of the literal starts with the eight spaces of the source's indentation.
\<close>

definition report_text :: "pystr \<Rightarrow> pystr \<Rightarrow> pystr \<Rightarrow> pystr \<Rightarrow> pystr \<Rightarrow> pystr \<Rightarrow> pystr" where
  "report_text title description headings markets buyer_leads distributors =
     lit ''\<newline>        ## Export Opportunity Report\<newline>\<newline>        **Brand Title:** '' @ title @
     lit ''\<newline>\<newline>        **Meta Description:** '' @ description @
     lit ''\<newline>\<newline>        ### Sample Product Headings\<newline>        '' @ headings @
     lit ''\<newline>\<newline>        ### Top Markets\<newline>        '' @ markets @
     lit ''\<newline>\<newline>        ### Buyer Leads\<newline>        '' @ buyer_leads @
     lit ''\<newline>\<newline>        ### Trusted Distributors by Country\<newline>        '' @ distributors @
     lit ''\<newline>        ''"

text \<open>The body of the \<open>try\<close> of \<open>create_report\<close> (lines 93-118).\<close>

definition create_report_try ::
  "environment \<Rightarrow> pydict \<Rightarrow> dataframe \<Rightarrow> dataframe \<Rightarrow> dataframe \<Rightarrow> pyexc + pystr" where
  "create_report_try env brand_data market_data buyer_table distributors_by_market =
     (case dist_sections env distributors_by_market of
        Inl e \<Rightarrow> Inl e
      | Inr sections \<Rightarrow>
     (case str_join (lit '', '') (dict_get brand_data (lit ''Product Headings'') (PList [])) of
        Inl e \<Rightarrow> Inl e
      | Inr headings \<Rightarrow>
     (case to_markdown env market_data of
        Inl e \<Rightarrow> Inl e
      | Inr markets \<Rightarrow>
     (case to_markdown env buyer_table of
        Inl e \<Rightarrow> Inl e
      | Inr buyer_leads \<Rightarrow>
          Inr (report_text
                 (format env (dict_get brand_data (lit ''Page Title'') (PStr (lit ''N/A''))))
                 (format env (dict_get brand_data (lit ''Meta Description'') (PStr (lit ''N/A''))))
                 headings markets buyer_leads sections)))))"

definition create_report ::
  "environment \<Rightarrow> pydict \<Rightarrow> dataframe \<Rightarrow> dataframe \<Rightarrow> dataframe \<Rightarrow> pyexc + pystr" where
  "create_report env brand_data market_data buyer_table distributors_by_market =
     (case create_report_try env brand_data market_data buyer_table distributors_by_market of
        Inr report_md \<Rightarrow> Inr report_md
      | Inl e \<Rightarrow> Inr (lit ''Report generation failed: '' @ exc_str env e))"

text \<open>
  For the statements about the distributor section: the countries of a table's rows,
  and the bullets of one country, in the order of the rows.
\<close>

definition country_keys :: "dataframe \<Rightarrow> pystr list" where
  "country_keys df = map (\<lambda>r. text_of (cell (columns df) r (lit ''Country''))) (rows df)"

definition bullets :: "environment \<Rightarrow> dataframe \<Rightarrow> pystr \<Rightarrow> pystr list" where
  "bullets env df country =
     map (\<lambda>r. lit ''- '' @ format env (cell (columns df) r (lit ''Distributor'')))
       (filter (\<lambda>r. cell (columns df) r (lit ''Country'') = PStr country) (rows df))"

text \<open>
  The headers every report carries, and the text the handler of \<open>create_report\<close>
  returns when the table of distributors has no \<open>Country\<close> column.
\<close>

definition report_headers :: "pystr list" where
  "report_headers =
     [lit ''## Export Opportunity Report'', lit ''**Brand Title:**'', lit ''**Meta Description:**'',
      lit ''### Sample Product Headings'', lit ''### Top Markets'', lit ''### Buyer Leads'',
      lit ''### Trusted Distributors by Country'']"

definition failed_report :: pystr where
  "failed_report = lit ''Report generation failed: '' @ [39] @ lit ''Country'' @ [39]"

section \<open>The download link\<close>

text \<open>
  \<open>s.encode()\<close>: UTF-8. Every code point of a Python string is below \<open>0x110000\<close>; a
  surrogate (\<open>0xD800\<close> to \<open>0xDFFF\<close>) has no encoding and raises
  \<open>UnicodeEncodeError\<close>.
\<close>

definition encodable :: "nat \<Rightarrow> bool" where
  "encodable c \<longleftrightarrow> c < 0xD800 \<or> (0xDFFF < c \<and> c < 0x110000)"

definition utf8_bytes :: "nat \<Rightarrow> nat list" where
  "utf8_bytes c =
     (if c < 0x80 then [c]
      else if c < 0x800 then [0xC0 + c div 64, 0x80 + c mod 64]
      else if c < 0x10000 then [0xE0 + c div 4096, 0x80 + c div 64 mod 64, 0x80 + c mod 64]
      else [0xF0 + c div 262144, 0x80 + c div 4096 mod 64, 0x80 + c div 64 mod 64,
            0x80 + c mod 64])"

fun utf8_encode_from :: "nat \<Rightarrow> pystr \<Rightarrow> pyexc + nat list" where
  "utf8_encode_from i [] = Inr []"
| "utf8_encode_from i (c # cs) =
     (if encodable c
      then (case utf8_encode_from (Suc i) cs of
              Inl e \<Rightarrow> Inl e
            | Inr bs \<Rightarrow> Inr (utf8_bytes c @ bs))
      else Inl (UnicodeEncodeError i c))"

definition str_encode :: "pystr \<Rightarrow> pyexc + nat list" where
  "str_encode s = utf8_encode_from 0 s"

text \<open>
  \<open>b.decode()\<close>: strict UTF-8. A continuation byte is \<open>0x80\<close> to \<open>0xBF\<close>; a code
  point written with more bytes than it needs, a surrogate and a code point from
  \<open>0x110000\<close> are refused.
\<close>

definition continuation :: "nat \<Rightarrow> bool" where
  "continuation b \<longleftrightarrow> 0x80 \<le> b \<and> b < 0xC0"

definition decoded :: "nat \<Rightarrow> pyexc + pystr \<Rightarrow> pyexc + pystr" where
  "decoded c r = (case r of Inl e \<Rightarrow> Inl e | Inr cs \<Rightarrow> Inr (c # cs))"

fun bytes_decode :: "nat list \<Rightarrow> pyexc + pystr" where
  "bytes_decode [] = Inr []"
| "bytes_decode (b # bs) =
     (if b < 0x80 then decoded b (bytes_decode bs)
      else if 0xC0 \<le> b \<and> b < 0xE0 then
        (case bs of
           b1 # r \<Rightarrow>
             (let c = (b - 0xC0) * 64 + (b1 - 0x80)
              in if continuation b1 \<and> 0x80 \<le> c then decoded c (bytes_decode r)
                 else Inl UnicodeDecodeError)
         | _ \<Rightarrow> Inl UnicodeDecodeError)
      else if 0xE0 \<le> b \<and> b < 0xF0 then
        (case bs of
           b1 # b2 # r \<Rightarrow>
             (let c = (b - 0xE0) * 4096 + (b1 - 0x80) * 64 + (b2 - 0x80)
              in if continuation b1 \<and> continuation b2 \<and> 0x800 \<le> c \<and> encodable c
                 then decoded c (bytes_decode r)
                 else Inl UnicodeDecodeError)
         | _ \<Rightarrow> Inl UnicodeDecodeError)
      else if 0xF0 \<le> b \<and> b < 0xF8 then
        (case bs of
           b1 # b2 # b3 # r \<Rightarrow>
             (let c = (b - 0xF0) * 262144 + (b1 - 0x80) * 4096 + (b2 - 0x80) * 64 + (b3 - 0x80)
              in if continuation b1 \<and> continuation b2 \<and> continuation b3 \<and>
                    0x10000 \<le> c \<and> c < 0x110000
                 then decoded c (bytes_decode r)
                 else Inl UnicodeDecodeError)
         | _ \<Rightarrow> Inl UnicodeDecodeError)
      else Inl UnicodeDecodeError)"

text \<open>
  \<open>base64.b64encode\<close>: three bytes become four characters of the alphabet
  \<open>A-Z a-z 0-9 + /\<close>, six bits each; a last group of one or two bytes is padded with
  \<open>=\<close> (code 61). The alphabet is indexed by a six-bit number, so the index is
  taken below 64.
\<close>

definition b64_alphabet :: "nat list" where
  "b64_alphabet = lit ''ABCDEFGHIJKLMNOPQRSTUVWXYZabcdefghijklmnopqrstuvwxyz0123456789+/''"

definition b64_char :: "nat \<Rightarrow> nat" where
  "b64_char n = b64_alphabet ! (n mod 64)"

fun b64encode :: "nat list \<Rightarrow> nat list" where
  "b64encode [] = []"
| "b64encode [a] = [b64_char (a div 4), b64_char (a mod 4 * 16), 61, 61]"
| "b64encode [a, b] =
     [b64_char (a div 4), b64_char (a mod 4 * 16 + b div 16), b64_char (b mod 16 * 4), 61]"
| "b64encode (a # b # c # bs) =
     [b64_char (a div 4), b64_char (a mod 4 * 16 + b div 16),
      b64_char (b mod 16 * 4 + c div 64), b64_char (c mod 64)] @ b64encode bs"

text \<open>The body of the \<open>try\<close> of \<open>download_link\<close> (lines 124-125).\<close>

definition download_link_try :: "pystr \<Rightarrow> pystr \<Rightarrow> pystr \<Rightarrow> pyexc + pystr" where
  \<open>download_link_try object_to_download download_filename link_text =
     (case str_encode object_to_download of
        Inl e \<Rightarrow> Inl e
      | Inr bs \<Rightarrow>
     (case bytes_decode (b64encode bs) of
        Inl e \<Rightarrow> Inl e
      | Inr b64 \<Rightarrow>
          Inr (lit ''<a href="data:file/txt;base64,'' @ b64 @ lit ''" download="'' @
               download_filename @ lit ''">'' @ link_text @ lit ''</a>'')))\<close>

definition download_link :: "environment \<Rightarrow> pystr \<Rightarrow> pystr \<Rightarrow> pystr \<Rightarrow> pyexc + pystr" where
  "download_link env object_to_download download_filename link_text =
     (case download_link_try object_to_download download_filename link_text of
        Inr link \<Rightarrow> Inr link
      | Inl e \<Rightarrow> Inr (lit ''Error generating download link: '' @ exc_str env e))"

text \<open>
  Reading a link back, for the statement of the round trip: the payload is what stands
  between \<open>base64,\<close> and the closing quote of the \<open>href\<close>, and base64 decoding (RFC
  4648) turns four characters of the alphabet into three bytes.
\<close>

definition link_payload :: "pystr \<Rightarrow> pystr" where
  \<open>link_payload link =
     takeWhile (\<lambda>c. c \<noteq> 34) (drop (length ''<a href="data:file/txt;base64,'') link)\<close>

definition b64_index :: "nat \<Rightarrow> nat option" where
  "b64_index c =
     (if 65 \<le> c \<and> c \<le> 90 then Some (c - 65)
      else if 97 \<le> c \<and> c \<le> 122 then Some (c - 71)
      else if 48 \<le> c \<and> c \<le> 57 then Some (c + 4)
      else if c = 43 then Some 62
      else if c = 47 then Some 63
      else None)"

fun b64decode :: "nat list \<Rightarrow> nat list option" where
  "b64decode [] = Some []"
| "b64decode (w # x # y # z # cs) =
     (case (b64_index w, b64_index x) of
        (Some a, Some b) \<Rightarrow>
          if y = 61 \<and> z = 61 \<and> cs = [] then Some [a * 4 + b div 16]
          else (case b64_index y of
                  None \<Rightarrow> None
                | Some c \<Rightarrow>
                    if z = 61 \<and> cs = [] then Some [a * 4 + b div 16, b mod 16 * 16 + c div 4]
                    else (case (b64_index z, b64decode cs) of
                            (Some d, Some bs) \<Rightarrow>
                              Some ([a * 4 + b div 16, b mod 16 * 16 + c div 4, c mod 4 * 64 + d] @ bs)
                          | _ \<Rightarrow> None))
      | _ \<Rightarrow> None)"
| "b64decode cs = None"

text \<open>The whole way back from a link to the text it carries.\<close>

definition decode_link :: "pystr \<Rightarrow> pystr option" where
  "decode_link link =
     (case b64decode (link_payload link) of
        None \<Rightarrow> None
      | Some bs \<Rightarrow> (case bytes_decode bs of Inl e \<Rightarrow> None | Inr s \<Rightarrow> Some s))"

text \<open>The alphabet by arithmetic on the codes, for the proofs.\<close>

definition b64_char_arith :: "nat \<Rightarrow> nat" where
  "b64_char_arith n =
     (if n < 26 then 65 + n else if n < 52 then 71 + n else if n < 62 then n - 4
      else if n = 62 then 43 else 47)"

section \<open>The workflow\<close>

text \<open>
  What a run shows: nothing when no URL was entered, the scraper's message when the
  scrape failed, and otherwise the summary, the three tables, the report and the link.
  The calls that only display a value are not modelled.
\<close>

record page =
  site_info :: pydict
  market_df :: dataframe
  buyer_df :: dataframe
  distributors_df :: dataframe
  report_md :: pystr
  dl_link :: pystr

datatype outcome = NotTriggered | ScrapeFailed pyval | Rendered page

text \<open>Lines 58-76 and 130-158.\<close>

definition workflow ::
  "environment \<Rightarrow> pystr \<Rightarrow> pystr \<Rightarrow> (pyexc + dataframe) option \<Rightarrow> pyexc + outcome" where
  "workflow env brand_url product_keywords uploaded_file =
     (case buyer_source env uploaded_file product_keywords of
        Inl e \<Rightarrow> Inl e
      | Inr buyer_table \<Rightarrow>
     if brand_url = [] then Inr NotTriggered
     else
     (case scrape_site env brand_url of
        Inl e \<Rightarrow> Inl e
      | Inr info \<Rightarrow>
     if has_key info (lit ''error'') then Inr (ScrapeFailed (dict_get info (lit ''error'') PNone))
     else
     (case suggest_markets env (or_default product_keywords) of
        Inl e \<Rightarrow> Inl e
      | Inr markets \<Rightarrow>
     (case distributor_df_list env markets of
        Inl e \<Rightarrow> Inl e
      | Inr distributor_tables \<Rightarrow>
     (case create_report env info markets buyer_table (distributors_df_of distributor_tables) of
        Inl e \<Rightarrow> Inl e
      | Inr report \<Rightarrow>
     (case download_link env report (lit ''export_report.md'')
             ([0x1F4C5] @ lit '' Download Full Report'') of
        Inl e \<Rightarrow> Inl e
      | Inr link \<Rightarrow>
          Inr (Rendered \<lparr>site_info = info, market_df = markets, buyer_df = buyer_table,
                         distributors_df = distributors_df_of distributor_tables,
                         report_md = report, dl_link = link\<rparr>)))))))"

section \<open>Sample environments\<close>

text \<open>
  Concrete environments on which the statements below are evaluated. The sample page
  has the title \<open>Acme Mobility\<close>, no meta description, and four headings of which
  three are longer than five characters.
\<close>

definition sample_page :: soup where
  "sample_page =
     [Tag (lit ''html'') []
        [Tag (lit ''head'') []
           [Tag (lit ''title'') [] [NavigableString (lit ''Acme Mobility'')],
            Tag (lit ''meta'') [(lit ''charset'', lit ''utf-8'')] []],
         Tag (lit ''body'') []
           [Tag (lit ''h1'') [] [NavigableString (lit '' Acme Mobility Scooters '')],
            Tag (lit ''h2'') [] [NavigableString (lit ''Shop'')],
            Tag (lit ''h2'') [] [NavigableString (lit ''Power Wheelchairs'')],
            Tag (lit ''p'') [] [NavigableString (lit ''Welcome to our shop.'')],
            Tag (lit ''h3'') []
              [NavigableString (lit ''Stair ''),
               Tag (lit ''b'') [] [NavigableString (lit ''Lifts'')]]]]]"

text \<open>
  Every request is answered with the given status and JSON body; the page parses to
  the sample page; a table is rendered as its column labels only.
\<close>

definition sample_env :: "int \<Rightarrow> pyexc + pyval \<Rightarrow> environment" where
  "sample_env status reply =
     \<lparr>requests_get = (\<lambda>url headers.
         Inr \<lparr>status_code = status, body_text = lit ''<html>'', json_result = reply,
              http_error_msg = lit ''Error for url''\<rparr>),
      html_parser = (\<lambda>markup. Inr sample_page),
      to_markdown = (\<lambda>df. Inr (join (lit '' | '') (columns df))),
      groupby_other = (\<lambda>df. Inl (BadOperand PNone)),
      iterrows_other = (\<lambda>df r name. cell (columns df) r name),
      format_value = (\<lambda>v. lit ''?''),
      interpreter_message = (\<lambda>e. lit ''operation failed'')\<rparr>"

text \<open>
  The brand site answers; every other request (the market query among them) times out.
\<close>

definition acme_env :: environment where
  "acme_env =
     (sample_env 200 (Inl (LibraryError (lit ''Expecting value''))))
       \<lparr>requests_get := (\<lambda>url headers.
          if url = lit ''https://acme.example''
          then Inr \<lparr>status_code = 200, body_text = lit ''<html>'',
                    json_result = Inl (LibraryError (lit ''Expecting value'')),
                    http_error_msg = []\<rparr>
          else Inl (LibraryError (lit ''Read timed out.'')))\<rparr>"


definition sample_markets :: dataframe where
  "sample_markets =
     \<lparr>columns = [lit ''Country'', lit ''Demand Score''],
      rows = [[PStr (lit ''USA''), PStr (lit ''Import'')],
              [PStr (lit ''USA''), PStr (lit ''Export'')],
              [PStr (lit ''Mexico''), PStr (lit ''Import'')]]\<rparr>"

text \<open>The combined table of the lookups for the sample markets.\<close>

definition sample_distributors :: dataframe where
  "sample_distributors =
     \<lparr>columns = [lit ''Distributor'', lit ''Country''],
      rows = [[PStr (lit ''MedEquip USA''), PStr (lit ''USA'')],
              [PStr (lit ''Trusted Medical Supplies''), PStr (lit ''USA'')],
              [PStr (lit ''MedEquip USA''), PStr (lit ''USA'')],
              [PStr (lit ''Trusted Medical Supplies''), PStr (lit ''USA'')],
              [PStr (lit ''Distribuciones SaludMX''), PStr (lit ''Mexico'')],
              [PStr (lit ''Grupo M'' @ [0xE9] @ lit ''dico MX''), PStr (lit ''Mexico'')]]\<rparr>"

text \<open>
  A page whose only element is \<open><h2>New <b>in</b></h2>\<close>, and an environment in which
  every page parses to it.
\<close>

definition fragment_page :: soup where
  "fragment_page =
     [Tag (lit ''h2'') []
        [NavigableString (lit ''New ''), Tag (lit ''b'') [] [NavigableString (lit ''in'')]]]"

definition fragment_env :: environment where
  "fragment_env =
     (sample_env 200 (Inl (LibraryError (lit ''Expecting value''))))
       \<lparr>html_parser := (\<lambda>markup. Inr fragment_page)\<rparr>"

text \<open>What the scraper returns for the sample page.\<close>

definition sample_summary :: pydict where
  "sample_summary =
     [(lit ''Page Title'', PStr (lit ''Acme Mobility'')),
      (lit ''Meta Description'', PStr (lit ''No description found'')),
      (lit ''Product Headings'',
         PList [PStr (lit ''Acme Mobility Scooters''), PStr (lit ''Power Wheelchairs''),
                PStr (lit ''StairLifts'')])]"

section \<open>Basic facts\<close>

lemma lit_eq_iff [simp]: "lit s = lit t \<longleftrightarrow> s = t"
  unfolding lit_def by (simp add: inj_on_def)

lemma lit_Nil [simp]: "lit [] = []"
  by (simp add: lit_def)

lemma lit_eq_Nil [simp]: "lit s = [] \<longleftrightarrow> s = []" "[] = lit s \<longleftrightarrow> s = []"
  by (auto simp: lit_def)

lemma length_lit [simp]: "length (lit s) = length s"
  by (simp add: lit_def)

lemma lit_append [simp]: "lit a @ lit b = lit (a @ b)"
  by (simp add: lit_def)

lemma lit_append_assoc [simp]: "lit a @ lit b @ r = lit (a @ b) @ r"
  by (simp add: lit_def)

lemma first_seen_simps [simp]:
  "first_seen [] = []"
  "first_seen [a] = [a]"
  by (simp_all add: first_seen_def)

lemma buyers_table:
  "DataFrame_records buyers =
     \<lparr>columns = [lit ''Company'', lit ''Country'', lit ''Contact''],
      rows = [[PStr (lit ''ExportYeti Buyers Co.''), PStr (lit ''USA''),
               PStr (lit ''contact@buyexportyeti.com'')],
              [PStr (lit ''Global Import Ventures''), PStr (lit ''Mexico''),
               PStr (lit ''sales@globalimport.mx'')],
              [PStr (lit ''AsiaMed Devices''), PStr (lit ''Philippines''),
               PStr (lit ''info@asiamed.ph'')]]\<rparr>"
  by (simp add: DataFrame_records_def buyers_def first_seen_def)

section \<open>The buyer list\<close>

text \<open>
  C8. With no uploaded file the buyer table is the same fixed table of three records
  whatever the keyword is: two runs with keywords \<open>x\<close> and \<open>y\<close> get the same table,
  and it is the table of the three hardcoded buyers.
\<close>

theorem C8_buyer_source_ignores_keyword:
  "buyer_source env None x = buyer_source env None y \<and>
   fetch_buyer_list env x = fetch_buyer_list env y \<and>
   buyer_source env None x =
     Inr \<lparr>columns = [lit ''Company'', lit ''Country'', lit ''Contact''],
          rows = [[PStr (lit ''ExportYeti Buyers Co.''), PStr (lit ''USA''),
                   PStr (lit ''contact@buyexportyeti.com'')],
                  [PStr (lit ''Global Import Ventures''), PStr (lit ''Mexico''),
                   PStr (lit ''sales@globalimport.mx'')],
                  [PStr (lit ''AsiaMed Devices''), PStr (lit ''Philippines''),
                   PStr (lit ''info@asiamed.ph'')]]\<rparr> \<and>
   (\<exists>df. buyer_source env None x = Inr df \<and> length (rows df) = 3)"
  by (simp add: buyer_source_def fetch_buyer_list_def fetch_buyer_list_try_def buyers_table)

section \<open>The scraper\<close>

lemma scrape_site_try_keys:
  "scrape_site_try env url = Inr d \<Longrightarrow>
   map fst d = [lit ''Page Title'', lit ''Meta Description'', lit ''Product Headings'']"
  by (auto simp: scrape_site_try_def Let_def split: sum.splits)

lemma buyer_source_returns: "\<exists>df. buyer_source env up kw = Inr df"
  by (simp add: buyer_source_def fetch_buyer_list_def fetch_buyer_list_try_def
      split: option.splits sum.splits)

text \<open>The scrape of the sample page.\<close>

lemma sample_page_headings:
  "find_all sample_page [lit ''h1'', lit ''h2'', lit ''h3''] =
     [Tag (lit ''h1'') [] [NavigableString (lit '' Acme Mobility Scooters '')],
      Tag (lit ''h2'') [] [NavigableString (lit ''Shop'')],
      Tag (lit ''h2'') [] [NavigableString (lit ''Power Wheelchairs'')],
      Tag (lit ''h3'') []
        [NavigableString (lit ''Stair ''),
         Tag (lit ''b'') [] [NavigableString (lit ''Lifts'')]]]"
  by (simp add: find_all_def soup_descendants_def sample_page_def)

lemma sample_page_title:
  "find_tag sample_page (lit ''title'') [] =
     Some (Tag (lit ''title'') [] [NavigableString (lit ''Acme Mobility'')])"
  by (simp add: find_tag_def soup_descendants_def sample_page_def)

lemma sample_page_meta:
  "find_tag sample_page (lit ''meta'') [(lit ''name'', lit ''description'')] = None"
  by (simp add: find_tag_def soup_descendants_def sample_page_def)

lemma strip_samples:
  "strip (lit '' Acme Mobility Scooters '') = lit ''Acme Mobility Scooters''"
  "strip (lit ''Shop'') = lit ''Shop''"
  "strip (lit ''Power Wheelchairs'') = lit ''Power Wheelchairs''"
  "strip (lit ''Stair '') = lit ''Stair''"
  "strip (lit ''Lifts'') = lit ''Lifts''"
  by (simp_all add: strip_def lit_def is_space_def)

lemma sample_page_summary:
  assumes "requests_get env url [] = Inr r" and "\<not> (400 \<le> status_code r \<and> status_code r < 600)"
    and "html_parser env (body_text r) = Inr sample_page"
  shows "scrape_site_try env url = Inr sample_summary"
  using assms
  by (simp add: scrape_site_try_def raise_for_status_def sample_page_title sample_page_meta
      sample_page_headings get_text_def strip_samples sample_summary_def)

lemma sample_env_scrape:
  "scrape_site_try (sample_env st reply) url =
    (if 400 \<le> st \<and> st < 600 then Inl (LibraryError (lit ''Error for url''))
     else Inr sample_summary)"
proof (cases "400 \<le> st \<and> st < 600")
  case True
  then show ?thesis
    by (simp add: scrape_site_try_def sample_env_def raise_for_status_def)
next
  case False
  then have "scrape_site_try (sample_env st reply) url = Inr sample_summary"
    by (intro sample_page_summary [where r = "\<lparr>status_code = st, body_text = lit ''<html>'',
          json_result = reply, http_error_msg = lit ''Error for url''\<rparr>"])
       (simp_all add: sample_env_def)
  with False show ?thesis by simp
qed

text \<open>
  C6, as stated, fails: a response with status 300 (no redirect target, so requests
  returns it as it is) is not a 2xx response, \<open>raise_for_status\<close> lets it pass, and the
  scraper returns the summary of its body, with no \<open>error\<close> key.
\<close>

theorem C6_non_2xx_counterexample:
  "requests_get (sample_env 300 (Inl (LibraryError []))) (lit ''https://acme.example'') [] =
     Inr \<lparr>status_code = 300, body_text = lit ''<html>'', json_result = Inl (LibraryError []),
          http_error_msg = lit ''Error for url''\<rparr> \<and>
   \<not> (200 \<le> (300::int) \<and> (300::int) < 300) \<and>
   scrape_site (sample_env 300 (Inl (LibraryError []))) (lit ''https://acme.example'') =
     Inr sample_summary \<and>
   \<not> has_key sample_summary (lit ''error'')"
  by (simp add: scrape_site_def sample_env_scrape)
     (simp add: sample_env_def has_key_def sample_summary_def)

text \<open>
  C6, amended. When the fetch raises (a timeout, a refused connection), when the
  response has a status from 400 to 599, or when the page does not parse, the scraper
  returns the one-entry record with the key \<open>error\<close> and the message
  \<open>Unable to scrape site: ...\<close>; and for every URL it returns and does not raise.
\<close>

theorem C6_scrape_failure_is_error_result:
  "(\<forall>e. requests_get env url [] = Inl e \<longrightarrow>
      scrape_site env url =
        Inr [(lit ''error'', PStr (lit ''Unable to scrape site: '' @ exc_str env e))]) \<and>
   (\<forall>r. requests_get env url [] = Inr r \<and> 400 \<le> status_code r \<and> status_code r < 600 \<longrightarrow>
      scrape_site env url =
        Inr [(lit ''error'', PStr (lit ''Unable to scrape site: '' @ http_error_msg r))]) \<and>
   (\<forall>r e. requests_get env url [] = Inr r \<and> \<not> (400 \<le> status_code r \<and> status_code r < 600) \<and>
      html_parser env (body_text r) = Inl e \<longrightarrow>
      scrape_site env url =
        Inr [(lit ''error'', PStr (lit ''Unable to scrape site: '' @ exc_str env e))]) \<and>
   (\<exists>d. scrape_site env url = Inr d)"
  by (auto simp: scrape_site_def scrape_site_try_def raise_for_status_def exc_str_def Let_def
      split: sum.splits)

theorem C6_scrape_failure_is_error_result_witness:
  "scrape_site acme_env (lit ''https://down.example'') =
     Inr [(lit ''error'', PStr (lit ''Unable to scrape site: Read timed out.''))] \<and>
   scrape_site (sample_env 404 (Inl (LibraryError []))) (lit ''https://acme.example'') =
     Inr [(lit ''error'', PStr (lit ''Unable to scrape site: Error for url''))]"
proof -
  have 1: "requests_get acme_env (lit ''https://down.example'') [] =
             Inl (LibraryError (lit ''Read timed out.''))"
    by (simp add: acme_env_def)
  have 2: "requests_get (sample_env 404 (Inl (LibraryError []))) (lit ''https://acme.example'') [] =
             Inr \<lparr>status_code = 404, body_text = lit ''<html>'', json_result = Inl (LibraryError []),
                  http_error_msg = lit ''Error for url''\<rparr>"
    by (simp add: sample_env_def)
  from C6_scrape_failure_is_error_result [of acme_env "lit ''https://down.example''"] 1
  have a: "scrape_site acme_env (lit ''https://down.example'') =
     Inr [(lit ''error'', PStr (lit ''Unable to scrape site: Read timed out.''))]"
    by (simp add: exc_str_def)
  from C6_scrape_failure_is_error_result
         [of "sample_env 404 (Inl (LibraryError []))" "lit ''https://acme.example''"] 2
  have "scrape_site (sample_env 404 (Inl (LibraryError []))) (lit ''https://acme.example'') =
     Inr [(lit ''error'', PStr (lit ''Unable to scrape site: Error for url''))]"
    by simp
  with a show ?thesis by simp
qed

lemma scrape_site_try_headings:
  assumes "requests_get env url [] = Inr r" and "raise_for_status r = Inr ()"
    and "html_parser env (body_text r) = Inr sp"
  shows "\<exists>title description.
           scrape_site_try env url =
             Inr [(lit ''Page Title'', PStr title), (lit ''Meta Description'', PStr description),
                  (lit ''Product Headings'',
                     PList (map PStr (map (get_text True) (take 10 (qualifying_headings sp)))))]"
  using assms
  by (simp add: scrape_site_try_def Let_def qualifying_headings_def find_all_def take_map)

text \<open>
  C7, as stated, fails: the text of \<open><h2>New <b>in</b></h2>\<close> trimmed at both ends
  is \<open>New in\<close>, six characters, so the element is a heading of level 2 whose trimmed
  text is longer than five; \<open>get_text(strip=True)\<close> of it is \<open>Newin\<close>, five
  characters, and the scraper returns no heading.
\<close>

theorem C7_trimmed_text_counterexample:
  "trimmed_headings fragment_page =
     [Tag (lit ''h2'') []
        [NavigableString (lit ''New ''), Tag (lit ''b'') [] [NavigableString (lit ''in'')]]] \<and>
   trimmed_text
     (Tag (lit ''h2'') []
        [NavigableString (lit ''New ''), Tag (lit ''b'') [] [NavigableString (lit ''in'')]]) =
     lit ''New in'' \<and>
   get_text True
     (Tag (lit ''h2'') []
        [NavigableString (lit ''New ''), Tag (lit ''b'') [] [NavigableString (lit ''in'')]]) =
     lit ''Newin'' \<and>
   scrape_site fragment_env (lit ''https://acme.example'') =
     Inr [(lit ''Page Title'', PStr (lit ''No title found'')),
          (lit ''Meta Description'', PStr (lit ''No description found'')),
          (lit ''Product Headings'', PList [])]"
proof -
  let ?h = "Tag (lit ''h2'') []
        [NavigableString (lit ''New ''), Tag (lit ''b'') [] [NavigableString (lit ''in'')]]"
  have s: "strip (lit ''New '') = lit ''New''" "strip (lit ''in'') = lit ''in''"
    "strip (lit ''New in'') = lit ''New in''"
    by (simp_all add: strip_def lit_def is_space_def)
  have t: "trimmed_text ?h = lit ''New in''" "trimmed_text (Tag (lit ''b'') [] [NavigableString (lit ''in'')]) = lit ''in''"
    by (simp_all add: trimmed_text_def get_text_def s)
  have g: "get_text True ?h = lit ''Newin''"
    by (simp add: get_text_def s)
  have 1: "trimmed_headings fragment_page = [?h]"
    by (simp add: trimmed_headings_def fragment_page_def soup_descendants_def t)
  have 2: "scrape_site fragment_env (lit ''https://acme.example'') =
     Inr [(lit ''Page Title'', PStr (lit ''No title found'')),
          (lit ''Meta Description'', PStr (lit ''No description found'')),
          (lit ''Product Headings'', PList [])]"
    by (simp add: scrape_site_def scrape_site_try_def fragment_env_def sample_env_def
        raise_for_status_def find_tag_def find_all_def soup_descendants_def fragment_page_def g)
  from 1 t(1) g 2 show ?thesis by simp
qed

text \<open>
  C7, amended. When the page was fetched and parsed, the headings of the result are the
  texts, as \<open>get_text(strip=True)\<close> gives them (every string of the element stripped,
  the empty ones left out, the rest joined with nothing between them), of the first ten
  heading elements of levels 1 to 3 for which that text is longer than five characters,
  in document order: at most ten entries, each longer than five.
\<close>

theorem C7_headings_first_ten:
  assumes "requests_get env url [] = Inr r" and "raise_for_status r = Inr ()"
    and "html_parser env (body_text r) = Inr sp"
  shows "\<exists>d headings.
           scrape_site env url = Inr d \<and>
           map_of d (lit ''Product Headings'') = Some (PList (map PStr headings)) \<and>
           headings = map (get_text True) (take 10 (qualifying_headings sp)) \<and>
           subseq (take 10 (qualifying_headings sp)) (soup_descendants sp) \<and>
           length headings \<le> 10 \<and>
           (\<forall>h \<in> set headings. 5 < length h)"
proof -
  from scrape_site_try_headings [OF assms] obtain title description where
    d: "scrape_site_try env url =
          Inr [(lit ''Page Title'', PStr title), (lit ''Meta Description'', PStr description),
               (lit ''Product Headings'',
                  PList (map PStr (map (get_text True) (take 10 (qualifying_headings sp)))))]"
    by blast
  have sub: "subseq (take 10 (qualifying_headings sp)) (soup_descendants sp)"
  proof -
    have "subseq (take 10 (qualifying_headings sp)) (qualifying_headings sp)"
      by (metis append_take_drop_id prefix_def prefix_imp_subseq)
    moreover have "subseq (qualifying_headings sp) (soup_descendants sp)"
      by (simp add: qualifying_headings_def)
    ultimately show ?thesis by (rule subseq_order.trans)
  qed
  have long: "\<forall>h \<in> set (map (get_text True) (take 10 (qualifying_headings sp))). 5 < length h"
  proof
    fix h assume "h \<in> set (map (get_text True) (take 10 (qualifying_headings sp)))"
    then obtain n where "n \<in> set (take 10 (qualifying_headings sp))" "h = get_text True n"
      by auto
    then have "n \<in> set (qualifying_headings sp)" by (meson in_set_takeD)
    with \<open>h = get_text True n\<close> show "5 < length h"
      by (simp add: qualifying_headings_def)
  qed
  from d sub long show ?thesis
    by (simp add: scrape_site_def)
qed

theorem C7_headings_first_ten_witness:
  "raise_for_status \<lparr>status_code = 200, body_text = lit ''<html>'',
      json_result = Inl (LibraryError []), http_error_msg = lit ''Error for url''\<rparr> = Inr () \<and>
   (\<exists>d. scrape_site (sample_env 200 (Inl (LibraryError []))) (lit ''https://acme.example'') = Inr d \<and>
        map_of d (lit ''Product Headings'') =
          Some (PList [PStr (lit ''Acme Mobility Scooters''), PStr (lit ''Power Wheelchairs''),
                       PStr (lit ''StairLifts'')]))"
proof -
  let ?r = "\<lparr>status_code = 200, body_text = lit ''<html>'',
      json_result = Inl (LibraryError []), http_error_msg = lit ''Error for url''\<rparr>"
  have 1: "requests_get (sample_env 200 (Inl (LibraryError []))) (lit ''https://acme.example'') [] = Inr ?r"
    by (simp add: sample_env_def)
  have 2: "raise_for_status ?r = Inr ()"
    by (simp add: raise_for_status_def)
  have 3: "html_parser (sample_env 200 (Inl (LibraryError []))) (body_text ?r) = Inr sample_page"
    by (simp add: sample_env_def)
  have q: "map (get_text True) (take 10 (qualifying_headings sample_page)) =
             [lit ''Acme Mobility Scooters'', lit ''Power Wheelchairs'', lit ''StairLifts'']"
    using sample_page_headings
    by (simp add: qualifying_headings_def find_all_def get_text_def strip_samples
        flip: filter_filter)
  from C7_headings_first_ten [OF 1 2 3] q 2 show ?thesis
    by auto
qed

text \<open>
  C10. A successful scrape returns exactly the keys \<open>Page Title\<close>, \<open>Meta Description\<close>
  and \<open>Product Headings\<close>, never \<open>error\<close>; a failed one returns exactly the key
  \<open>error\<close>. So the test \<open>"error" in site_info\<close> of the workflow is true exactly for
  the failed scrapes, and the run stops there exactly for them.
\<close>

theorem C10_error_key_discriminates:
  "(\<forall>d. scrape_site_try env url = Inr d \<longrightarrow>
      scrape_site env url = Inr d \<and>
      map fst d = [lit ''Page Title'', lit ''Meta Description'', lit ''Product Headings''] \<and>
      \<not> has_key d (lit ''error'')) \<and>
   (\<forall>e. scrape_site_try env url = Inl e \<longrightarrow>
      (\<exists>d. scrape_site env url = Inr d \<and> map fst d = [lit ''error''] \<and>
           has_key d (lit ''error''))) \<and>
   (url \<noteq> [] \<longrightarrow>
      ((\<exists>m. workflow env url keywords uploaded = Inr (ScrapeFailed m)) \<longleftrightarrow>
       (\<exists>e. scrape_site_try env url = Inl e)))"
proof (intro conjI allI impI)
  fix d assume ok: "scrape_site_try env url = Inr d"
  then show "scrape_site env url = Inr d"
    by (simp add: scrape_site_def)
  from ok show keys: "map fst d = [lit ''Page Title'', lit ''Meta Description'', lit ''Product Headings'']"
    by (rule scrape_site_try_keys)
  show "\<not> has_key d (lit ''error'')"
    unfolding has_key_def keys by simp
next
  fix e assume "scrape_site_try env url = Inl e"
  then show "\<exists>d. scrape_site env url = Inr d \<and> map fst d = [lit ''error''] \<and> has_key d (lit ''error'')"
    by (simp add: scrape_site_def has_key_def)
next
  assume url: "url \<noteq> []"
  obtain df where df: "buyer_source env uploaded keywords = Inr df"
    using buyer_source_returns by blast
  show "(\<exists>m. workflow env url keywords uploaded = Inr (ScrapeFailed m)) \<longleftrightarrow>
        (\<exists>e. scrape_site_try env url = Inl e)"
  proof (cases "scrape_site_try env url")
    case (Inl e)
    with url df show ?thesis
      by (simp add: workflow_def scrape_site_def has_key_def)
  next
    case (Inr d)
    have "\<not> has_key d (lit ''error'')"
      using scrape_site_try_keys [OF Inr] by (simp add: has_key_def)
    with Inr url df show ?thesis
      by (simp add: workflow_def scrape_site_def split: sum.splits)
  qed
qed

theorem C10_error_key_discriminates_witness:
  "scrape_site (sample_env 200 (Inl (LibraryError []))) (lit ''https://acme.example'') =
     Inr sample_summary \<and>
   map fst sample_summary = [lit ''Page Title'', lit ''Meta Description'', lit ''Product Headings''] \<and>
   \<not> has_key sample_summary (lit ''error'') \<and>
   (\<exists>d. scrape_site (sample_env 500 (Inl (LibraryError []))) (lit ''https://acme.example'') = Inr d \<and>
        has_key d (lit ''error'')) \<and>
   (\<exists>m. workflow (sample_env 500 (Inl (LibraryError []))) (lit ''https://acme.example'') [] None =
          Inr (ScrapeFailed m))"
proof -
  have ok: "scrape_site_try (sample_env 200 (Inl (LibraryError []))) (lit ''https://acme.example'') =
              Inr sample_summary"
    by (simp add: sample_env_scrape)
  have bad: "scrape_site_try (sample_env 500 (Inl (LibraryError []))) (lit ''https://acme.example'') =
               Inl (LibraryError (lit ''Error for url''))"
    by (simp add: sample_env_scrape)
  from C10_error_key_discriminates
         [of "sample_env 200 (Inl (LibraryError []))" "lit ''https://acme.example''" "[]" None] ok
  have a: "scrape_site (sample_env 200 (Inl (LibraryError []))) (lit ''https://acme.example'') =
     Inr sample_summary \<and>
   map fst sample_summary = [lit ''Page Title'', lit ''Meta Description'', lit ''Product Headings''] \<and>
   \<not> has_key sample_summary (lit ''error'')"
    by simp
  from C10_error_key_discriminates
         [of "sample_env 500 (Inl (LibraryError []))" "lit ''https://acme.example''" "[]" None] bad
  have "(\<exists>d. scrape_site (sample_env 500 (Inl (LibraryError []))) (lit ''https://acme.example'') = Inr d \<and>
        has_key d (lit ''error'')) \<and>
   (\<exists>m. workflow (sample_env 500 (Inl (LibraryError []))) (lit ''https://acme.example'') [] None =
          Inr (ScrapeFailed m))"
    by auto
  with a show ?thesis by blast
qed

section \<open>The market suggestor\<close>

lemma foldl_seen:
  "set xs \<subseteq> set acc \<Longrightarrow> foldl (\<lambda>acc x. if x \<in> set acc then acc else acc @ [x]) acc xs = acc"
  by (induction xs arbitrary: acc) auto

lemma first_seen_pairs:
  assumes "a \<noteq> b" and "set xs \<subseteq> {a, b}"
  shows "first_seen (a # b # xs) = [a, b]"
  using assms foldl_seen [of xs "[a, b]"] by (simp add: first_seen_def)

lemma market_rows_shape:
  "market_rows items = Inr parsed \<Longrightarrow>
   length parsed = length items \<and>
   list_all (\<lambda>d. map fst d = [lit ''Country'', lit ''Demand Score'']) parsed"
proof (induction items arbitrary: parsed)
  case Nil
  then show ?case by simp
next
  case (Cons item items)
  then show ?case
    by (auto split: sum.splits)
qed

lemma DataFrame_records_market:
  assumes "list_all (\<lambda>d. map fst d = [lit ''Country'', lit ''Demand Score'']) parsed"
  shows "DataFrame_records parsed =
           \<lparr>columns = (if parsed = [] then [] else [lit ''Country'', lit ''Demand Score'']),
            rows = map (\<lambda>d. [dict_get d (lit ''Country'') (PFloat NaN),
                              dict_get d (lit ''Demand Score'') (PFloat NaN)]) parsed\<rparr>"
proof (cases parsed)
  case Nil
  then show ?thesis by (simp add: DataFrame_records_def)
next
  case (Cons d ds)
  with assms have d: "map fst d = [lit ''Country'', lit ''Demand Score'']"
    and ds: "list_all (\<lambda>d. map fst d = [lit ''Country'', lit ''Demand Score'']) ds" by simp_all
  have "set (concat (map (map fst) ds)) \<subseteq> {lit ''Country'', lit ''Demand Score''}"
    using ds by (induction ds) auto
  then have "first_seen (concat (map (map fst) parsed)) = [lit ''Country'', lit ''Demand Score'']"
    using first_seen_pairs [of "lit ''Country''" "lit ''Demand Score''" "concat (map (map fst) ds)"]
    by (simp add: Cons d)
  then show ?thesis
    by (simp add: DataFrame_records_def Cons dict_get_def)
qed

lemma first5_length:
  "py_slice5 v = Inr w \<Longrightarrow> py_iter w = Inr items \<Longrightarrow> length items \<le> 5"
  by (auto simp: py_slice5_def py_iter_def split: pyval.splits)

lemma suggest_markets_try_shape:
  assumes "suggest_markets_try env t = Inr df"
  shows "length (rows df) \<le> 5 \<and>
         columns df = (if rows df = [] then [] else [lit ''Country'', lit ''Demand Score'']) \<and>
         list_all (\<lambda>r. length r = 2) (rows df)"
proof -
  from assms obtain v w items parsed where
    s: "py_slice5 v = Inr w" and i: "py_iter w = Inr items" and m: "market_rows items = Inr parsed"
    and df: "df = DataFrame_records parsed"
    by (auto simp: suggest_markets_try_def split: sum.splits)
  from market_rows_shape [OF m] first5_length [OF s i] show ?thesis
    by (simp add: df DataFrame_records_market list_all_iff)
qed

lemma market_error_table_eq:
  "market_error_table msg =
     \<lparr>columns = [lit ''Country'', lit ''Demand Score''], rows = [[PStr (lit ''Error''), PStr msg]]\<rparr>"
  by (simp add: market_error_table_def DataFrame_records_def first_seen_def)

text \<open>
  C5, amended. For every product term the market suggestor returns a table (it does
  not raise) with at most five rows; a table with a row has exactly the two columns
  \<open>Country\<close> and \<open>Demand Score\<close>, and a table without rows has no columns. When
  anything in the body fails, the table is the single row with country \<open>Error\<close> and
  the message as its demand score.
\<close>

theorem C5_market_table_shape:
  "\<exists>df. suggest_markets env t = Inr df \<and>
        length (rows df) \<le> 5 \<and>
        (rows df \<noteq> [] \<longrightarrow> columns df = [lit ''Country'', lit ''Demand Score'']) \<and>
        (rows df = [] \<longrightarrow> columns df = []) \<and>
        list_all (\<lambda>r. length r = 2) (rows df) \<and>
        (\<forall>e. suggest_markets_try env t = Inl e \<longrightarrow>
           df = \<lparr>columns = [lit ''Country'', lit ''Demand Score''],
                 rows = [[PStr (lit ''Error''), PStr (exc_str env e)]]\<rparr>)"
proof (cases "suggest_markets_try env t")
  case (Inl e)
  then show ?thesis
    by (simp add: suggest_markets_def market_error_table_eq)
next
  case (Inr df)
  with suggest_markets_try_shape [OF Inr] show ?thesis
    by (simp add: suggest_markets_def)
qed

text \<open>
  C5, as stated, fails: a reply without entries gives \<open>pd.DataFrame([])\<close>, which has
  no columns.
\<close>

theorem C5_two_columns_counterexample:
  "suggest_markets (sample_env 200 (Inr (PDict []))) (lit ''Mobility equipment'') =
     Inr \<lparr>columns = [], rows = []\<rparr> \<and>
   length (columns \<lparr>columns = [], rows = []\<rparr>) \<noteq> 2"
  by (simp add: suggest_markets_def suggest_markets_try_def sample_env_def raise_for_status_def
      py_get_def dict_get_def py_slice5_def py_iter_def DataFrame_records_def)

theorem C5_market_table_shape_witness:
  "suggest_markets acme_env (lit ''Mobility equipment'') =
     Inr \<lparr>columns = [lit ''Country'', lit ''Demand Score''],
          rows = [[PStr (lit ''Error''), PStr (lit ''Read timed out.'')]]\<rparr>"
proof -
  have "suggest_markets_try acme_env (lit ''Mobility equipment'') =
          Inl (LibraryError (lit ''Read timed out.''))"
    by (simp add: suggest_markets_try_def acme_env_def comtrade_url_def)
  with C5_market_table_shape [of acme_env "lit ''Mobility equipment''"] show ?thesis
    by (auto simp: exc_str_def)
qed

section \<open>The distributor lookup\<close>

















section \<open>The report\<close>

lemma sequence_exc_map:
  "(\<And>x. x \<in> set xs \<Longrightarrow> f x = Inr (g x)) \<Longrightarrow> sequence_exc (map f xs) = Inr (map g xs)"
  by (induction xs) simp_all

lemma groupby_text:
  assumes "lit ''Country'' \<in> set (columns df)"
    and "list_all (\<lambda>r. is_text (cell (columns df) r (lit ''Country''))) (rows df)"
  shows "groupby env df (lit ''Country'') =
           Inr (map (\<lambda>k. (PStr k,
                      \<lparr>columns = columns df,
                       rows = filter (\<lambda>r. cell (columns df) r (lit ''Country'') = PStr k) (rows df)\<rparr>))
                  (sort (remdups (country_keys df))))"
  using assms
  by (simp add: groupby_def column_cells_def country_keys_def list_all_iff comp_def)

lemma dist_sections_text:
  assumes "lit ''Country'' \<in> set (columns df)" and "lit ''Distributor'' \<in> set (columns df)"
    and "list_all (\<lambda>r. is_text (cell (columns df) r (lit ''Country''))) (rows df)"
  shows "dist_sections env df =
           Inr (join (lit ''\<newline>\<newline>'')
                  (map (\<lambda>country. lit ''**'' @ country @ lit '' Distributors:**\<newline>'' @
                                   join (lit ''\<newline>'') (bullets env df country))
                     (sort (remdups (country_keys df)))))"
proof -
  have "sequence_exc (map (group_section env)
           (map (\<lambda>k. (PStr k,
                      \<lparr>columns = columns df,
                       rows = filter (\<lambda>r. cell (columns df) r (lit ''Country'') = PStr k) (rows df)\<rparr>))
                  (sort (remdups (country_keys df))))) =
        Inr (map (\<lambda>country. lit ''**'' @ country @ lit '' Distributors:**\<newline>'' @
                                   join (lit ''\<newline>'') (bullets env df country))
                     (sort (remdups (country_keys df))))"
    unfolding map_map
    by (rule sequence_exc_map)
       (simp add: group_section_def column_cells_def assms(2) format_def bullets_def comp_def)
  then show ?thesis
    by (simp add: dist_sections_def groupby_text [OF assms(1,3)])
qed

lemma create_report_sections:
  assumes "dist_sections env df = Inr sections"
    and "str_join (lit '', '') (dict_get brand (lit ''Product Headings'') (PList [])) = Inr headings"
    and "to_markdown env markets = Inr mk" and "to_markdown env buyer_table = Inr bk"
  shows "create_report env brand markets buyer_table df =
           Inr (report_text (format env (dict_get brand (lit ''Page Title'') (PStr (lit ''N/A''))))
                  (format env (dict_get brand (lit ''Meta Description'') (PStr (lit ''N/A''))))
                  headings mk bk sections)"
  using assms by (simp add: create_report_def create_report_try_def)

text \<open>
  C3, amended. For every combined table that has the columns \<open>Country\<close> and
  \<open>Distributor\<close>, distinct labels and a string in every \<open>Country\<close> cell, the distributor section is
  grouped by country, each group a heading followed by one bullet per distributor of
  that country in the order of the rows, the groups separated by an empty line and
  standing in ascending order of the country (each country once); and this text is the
  last section of the report.
\<close>

theorem C3_groups_sorted_by_country:
  assumes "lit ''Country'' \<in> set (columns df)" and "lit ''Distributor'' \<in> set (columns df)"
    and "list_all (\<lambda>r. is_text (cell (columns df) r (lit ''Country''))) (rows df)"
    and "distinct (columns df)"
  shows "\<exists>sections.
           dist_sections env df = Inr sections \<and>
           sections =
             join (lit ''\<newline>\<newline>'')
               (map (\<lambda>country. lit ''**'' @ country @ lit '' Distributors:**\<newline>'' @
                                join (lit ''\<newline>'') (bullets env df country))
                  (sort (remdups (country_keys df)))) \<and>
           sorted (sort (remdups (country_keys df))) \<and>
           distinct (sort (remdups (country_keys df))) \<and>
           set (sort (remdups (country_keys df))) = set (country_keys df) \<and>
           (\<forall>headings mk bk.
              str_join (lit '', '') (dict_get brand (lit ''Product Headings'') (PList [])) = Inr headings \<and>
              to_markdown env markets = Inr mk \<and> to_markdown env buyer_table = Inr bk \<longrightarrow>
              create_report env brand markets buyer_table df =
                Inr (report_text (format env (dict_get brand (lit ''Page Title'') (PStr (lit ''N/A''))))
                       (format env (dict_get brand (lit ''Meta Description'') (PStr (lit ''N/A''))))
                       headings mk bk sections))"
  using dist_sections_text [OF assms(1,2,3), of env] create_report_sections [of env df]
  by simp

lemma sample_keys:
  "country_keys sample_distributors =
     [lit ''USA'', lit ''USA'', lit ''USA'', lit ''USA'', lit ''Mexico'', lit ''Mexico'']"
  by (simp add: country_keys_def sample_distributors_def cell_def)

lemma sample_keys_sorted:
  "sort (remdups (country_keys sample_distributors)) = [lit ''Mexico'', lit ''USA'']"
proof -
  have "remdups (country_keys sample_distributors) = [lit ''USA'', lit ''Mexico'']"
    by (simp add: sample_keys)
  moreover have "lit ''Mexico'' < lit ''USA''"
    by (simp add: lit_def)
  ultimately show ?thesis by (simp add: less_le_not_le)
qed

lemma sample_bullets:
  "bullets env sample_distributors (lit ''USA'') =
     [lit ''- MedEquip USA'', lit ''- Trusted Medical Supplies'',
      lit ''- MedEquip USA'', lit ''- Trusted Medical Supplies'']"
  "bullets env sample_distributors (lit ''Mexico'') =
     [lit ''- Distribuciones SaludMX'', lit ''- Grupo M'' @ [0xE9] @ lit ''dico MX'']"
  by (simp_all add: bullets_def sample_distributors_def cell_def format_def)

lemma sample_sections:
  "dist_sections env sample_distributors =
     Inr (lit ''**Mexico Distributors:**\<newline>- Distribuciones SaludMX\<newline>- Grupo M'' @ [0xE9] @
          lit ''dico MX\<newline>\<newline>**USA Distributors:**\<newline>- MedEquip USA\<newline>- Trusted Medical Supplies\<newline>- MedEquip USA\<newline>- Trusted Medical Supplies'')"
proof -
  have "dist_sections env sample_distributors =
          Inr (join (lit ''\<newline>\<newline>'')
                 (map (\<lambda>country. lit ''**'' @ country @ lit '' Distributors:**\<newline>'' @
                                  join (lit ''\<newline>'') (bullets env sample_distributors country))
                    (sort (remdups (country_keys sample_distributors)))))"
    by (rule dist_sections_text) (simp_all add: sample_distributors_def cell_def)
  then show ?thesis
    by (simp add: sample_keys_sorted sample_bullets)
qed

text \<open>
  C3, as stated, fails: in the combined table of the sample markets USA appears before
  Mexico, and the section lists Mexico first.
\<close>

theorem C3_first_appearance_counterexample:
  "first_seen (country_keys sample_distributors) = [lit ''USA'', lit ''Mexico''] \<and>
   dist_sections acme_env sample_distributors =
     Inr (lit ''**Mexico Distributors:**\<newline>- Distribuciones SaludMX\<newline>- Grupo M'' @ [0xE9] @
          lit ''dico MX\<newline>\<newline>**USA Distributors:**\<newline>- MedEquip USA\<newline>- Trusted Medical Supplies\<newline>- MedEquip USA\<newline>- Trusted Medical Supplies'')"
  by (simp add: sample_sections) (simp add: sample_keys first_seen_def)

theorem C3_groups_sorted_by_country_witness:
  "lit ''Country'' \<in> set (columns sample_distributors) \<and>
   lit ''Distributor'' \<in> set (columns sample_distributors) \<and>
   distinct (columns sample_distributors) \<and>
   list_all (\<lambda>r. is_text (cell (columns sample_distributors) r (lit ''Country'')))
     (rows sample_distributors) \<and>
   sort (remdups (country_keys sample_distributors)) = [lit ''Mexico'', lit ''USA''] \<and>
   create_report acme_env sample_summary sample_markets (DataFrame_records buyers) sample_distributors =
     Inr (report_text (lit ''Acme Mobility'') (lit ''No description found'')
            (lit ''Acme Mobility Scooters, Power Wheelchairs, StairLifts'')
            (lit ''Country | Demand Score'') (lit ''Company | Country | Contact'')
            (lit ''**Mexico Distributors:**\<newline>- Distribuciones SaludMX\<newline>- Grupo M'' @ [0xE9] @
             lit ''dico MX\<newline>\<newline>**USA Distributors:**\<newline>- MedEquip USA\<newline>- Trusted Medical Supplies\<newline>- MedEquip USA\<newline>- Trusted Medical Supplies''))"
proof -
  have 1: "lit ''Country'' \<in> set (columns sample_distributors)"
    and 2: "lit ''Distributor'' \<in> set (columns sample_distributors)"
    and 3: "list_all (\<lambda>r. is_text (cell (columns sample_distributors) r (lit ''Country'')))
              (rows sample_distributors)"
    and 4: "distinct (columns sample_distributors)"
    by (simp_all add: sample_distributors_def cell_def)
  have h: "str_join (lit '', '') (dict_get sample_summary (lit ''Product Headings'') (PList [])) =
             Inr (lit ''Acme Mobility Scooters, Power Wheelchairs, StairLifts'')"
    by (simp add: str_join_def sample_summary_def dict_get_def py_iter_def)
  have m: "to_markdown acme_env sample_markets = Inr (lit ''Country | Demand Score'')"
    by (simp add: acme_env_def sample_env_def sample_markets_def)
  have b: "to_markdown acme_env (DataFrame_records buyers) = Inr (lit ''Company | Country | Contact'')"
    by (simp add: acme_env_def sample_env_def buyers_table)
  have t: "format acme_env (dict_get sample_summary (lit ''Page Title'') (PStr (lit ''N/A''))) = lit ''Acme Mobility''"
    "format acme_env (dict_get sample_summary (lit ''Meta Description'') (PStr (lit ''N/A''))) = lit ''No description found''"
    by (simp_all add: format_def dict_get_def sample_summary_def)
  from C3_groups_sorted_by_country [OF 1 2 3 4, of acme_env sample_summary sample_markets
      "DataFrame_records buyers"] h m b
  have "create_report acme_env sample_summary sample_markets (DataFrame_records buyers) sample_distributors =
     Inr (report_text (lit ''Acme Mobility'') (lit ''No description found'')
            (lit ''Acme Mobility Scooters, Power Wheelchairs, StairLifts'')
            (lit ''Country | Demand Score'') (lit ''Company | Country | Contact'')
            (lit ''**Mexico Distributors:**\<newline>- Distribuciones SaludMX\<newline>- Grupo M'' @ [0xE9] @
             lit ''dico MX\<newline>\<newline>**USA Distributors:**\<newline>- MedEquip USA\<newline>- Trusted Medical Supplies\<newline>- MedEquip USA\<newline>- Trusted Medical Supplies''))"
    by (simp add: t sample_keys_sorted sample_bullets)
  with 1 2 3 4 sample_keys_sorted show ?thesis by simp
qed

lemma create_report_returns:
  "\<exists>s. create_report env brand markets buyer_table df = Inr s"
  by (simp add: create_report_def split: sum.splits)

lemma create_report_try_text:
  "create_report_try env brand markets buyer_table df = Inr t \<Longrightarrow>
   \<exists>title description headings mk bk sections.
     t = report_text title description headings mk bk sections"
  by (auto simp: create_report_try_def split: sum.splits) blast

lemma sublist_skip: "sublist xs ys \<Longrightarrow> sublist xs (ps @ ys)"
  by (metis append.assoc sublist_def)

lemma report_text_split:
  "report_text title description headings mk bk sections =
     lit ''\<newline>        '' @ lit ''## Export Opportunity Report'' @ lit ''\<newline>\<newline>        '' @
     lit ''**Brand Title:**'' @ lit '' '' @ title @ lit ''\<newline>\<newline>        '' @
     lit ''**Meta Description:**'' @ lit '' '' @ description @ lit ''\<newline>\<newline>        '' @
     lit ''### Sample Product Headings'' @ lit ''\<newline>        '' @ headings @ lit ''\<newline>\<newline>        '' @
     lit ''### Top Markets'' @ lit ''\<newline>        '' @ mk @ lit ''\<newline>\<newline>        '' @
     lit ''### Buyer Leads'' @ lit ''\<newline>        '' @ bk @ lit ''\<newline>\<newline>        '' @
     lit ''### Trusted Distributors by Country'' @ lit ''\<newline>        '' @ sections @
     lit ''\<newline>        ''"
  by (simp add: report_text_def)

lemma sublist_skip4: "sublist xs ys \<Longrightarrow> sublist xs (a @ b @ c @ d @ ys)"
  by (intro sublist_skip)

lemma report_text_headers:
  "list_all (\<lambda>h. sublist h (report_text title description headings mk bk sections)) report_headers"
proof -
  let ?report = "report_text title description headings mk bk sections"
  have h1: "sublist (lit ''## Export Opportunity Report'') ?report"
    unfolding report_text_split
    by (rule sublist_skip, rule sublist_append_rightI)
  have h2: "sublist (lit ''**Brand Title:**'') ?report"
    unfolding report_text_split
    by (rule sublist_skip, rule sublist_skip, rule sublist_skip, rule sublist_append_rightI)
  have h3: "sublist (lit ''**Meta Description:**'') ?report"
    unfolding report_text_split
    by (rule sublist_skip4, rule sublist_skip, rule sublist_skip, rule sublist_skip, rule sublist_append_rightI)
  have h4: "sublist (lit ''### Sample Product Headings'') ?report"
    unfolding report_text_split
    by (rule sublist_skip4, rule sublist_skip4, rule sublist_skip, rule sublist_skip, rule sublist_skip, rule sublist_append_rightI)
  have h5: "sublist (lit ''### Top Markets'') ?report"
    unfolding report_text_split
    by (rule sublist_skip4, rule sublist_skip4, rule sublist_skip4, rule sublist_skip, rule sublist_skip, rule sublist_skip, rule sublist_append_rightI)
  have h6: "sublist (lit ''### Buyer Leads'') ?report"
    unfolding report_text_split
    by (rule sublist_skip4, rule sublist_skip4, rule sublist_skip4, rule sublist_skip4, rule sublist_skip, rule sublist_skip, rule sublist_skip, rule sublist_append_rightI)
  have h7: "sublist (lit ''### Trusted Distributors by Country'') ?report"
    unfolding report_text_split
    by (rule sublist_skip4, rule sublist_skip4, rule sublist_skip4, rule sublist_skip4, rule sublist_skip4, rule sublist_skip, rule sublist_skip, rule sublist_skip, rule sublist_append_rightI)
  from h1 h2 h3 h4 h5 h6 h7 show ?thesis
    by (simp add: report_headers_def)
qed

lemma failed_report_no_header:
  "\<not> sublist (lit ''### Top Markets'') failed_report"
  by (simp add: failed_report_def lit_def sublist_Cons_right)

lemma dist_sections_no_country:
  "lit ''Country'' \<notin> set (columns df) \<Longrightarrow> dist_sections env df = Inl (KeyError (lit ''Country''))"
  by (simp add: dist_sections_def groupby_def column_cells_def)

lemma create_report_no_country:
  "lit ''Country'' \<notin> set (columns df) \<Longrightarrow>
   create_report env brand markets buyer_table df = Inr failed_report"
  by (simp add: create_report_def create_report_try_def dist_sections_no_country exc_str_def
      failed_report_def lit_def)

text \<open>
  \<open>create_report\<close> never raises: it returns the report, which carries the fixed
  headers, or, when anything in its body fails, the single message
  \<open>Report generation failed: ...\<close>.
\<close>

lemma create_report_total:
  "(\<exists>s. create_report env brand markets buyer_table df = Inr s) \<and>
   (\<forall>e. create_report_try env brand markets buyer_table df = Inl e \<longrightarrow>
      create_report env brand markets buyer_table df =
        Inr (lit ''Report generation failed: '' @ exc_str env e)) \<and>
   (\<forall>t. create_report_try env brand markets buyer_table df = Inr t \<longrightarrow>
      create_report env brand markets buyer_table df = Inr t \<and>
      list_all (\<lambda>h. sublist h t) report_headers)"
proof (intro conjI allI impI)
  show "\<exists>s. create_report env brand markets buyer_table df = Inr s"
    by (rule create_report_returns)
next
  fix e assume "create_report_try env brand markets buyer_table df = Inl e"
  then show "create_report env brand markets buyer_table df =
        Inr (lit ''Report generation failed: '' @ exc_str env e)"
    by (simp add: create_report_def)
next
  fix t assume t: "create_report_try env brand markets buyer_table df = Inr t"
  then show "create_report env brand markets buyer_table df = Inr t"
    by (simp add: create_report_def)
  from create_report_try_text [OF t] show "list_all (\<lambda>h. sublist h t) report_headers"
    using report_text_headers by auto
qed

text \<open>
  C2. \<open>create_report\<close> does not raise, but fed an empty summary, an empty market
  table, an empty buyer table and the empty distributor table it does not return the
  section headers with empty bodies: the empty distributor table is \<open>pd.DataFrame()\<close>
  (what line 148 builds when no lookup was made), it has no \<open>Country\<close> column, the
  grouping raises \<open>KeyError\<close>, and the result, in every environment, is the message
  \<open>Report generation failed: 'Country'\<close>, which carries no section header.
\<close>

theorem C2_empty_tables_report:
  "create_report env [] DataFrame_empty DataFrame_empty DataFrame_empty = Inr failed_report \<and>
   failed_report = lit ''Report generation failed: '' @ [39] @ lit ''Country'' @ [39] \<and>
   \<not> sublist (lit ''### Top Markets'') failed_report \<and>
   distributors_df_of [] = DataFrame_empty"
  by (simp add: create_report_no_country DataFrame_empty_def failed_report_no_header
        distributors_df_of_def)
     (simp add: failed_report_def)

lemma download_link_returns: "\<exists>s. download_link env report filename link_text = Inr s"
  by (simp add: download_link_def split: sum.splits)

lemma error_table_no_calls:
  "distributor_df_list env (market_error_table msg) = Inr []"
  by (simp add: distributor_df_list_def market_error_table_eq row_get_def row_value_def cell_def
      is_sentinel_def)

lemma workflow_failed_market:
  assumes "url \<noteq> []" and "scrape_site_try env url = Inr info"
    and "suggest_markets_try env (or_default keywords) = Inl e"
    and "buyer_source env uploaded keywords = Inr buyer_table"
  shows "\<exists>link. workflow env url keywords uploaded =
           Inr (Rendered \<lparr>site_info = info, market_df = market_error_table (exc_str env e),
                          buyer_df = buyer_table, distributors_df = DataFrame_empty,
                          report_md = failed_report, dl_link = link\<rparr>)"
proof -
  have key: "\<not> has_key info (lit ''error'')"
    using scrape_site_try_keys [OF assms(2)] by (simp add: has_key_def)
  have rep: "create_report env info (market_error_table (exc_str env e)) buyer_table DataFrame_empty =
               Inr failed_report"
    by (rule create_report_no_country) (simp add: DataFrame_empty_def)
  obtain link where
    "download_link env failed_report (lit ''export_report.md'') ([0x1F4C5] @ lit '' Download Full Report'') =
       Inr link"
    using download_link_returns by blast
  with assms key rep show ?thesis
    by (simp add: workflow_def scrape_site_def suggest_markets_def error_table_no_calls
        distributors_df_of_def)
qed

text \<open>
  C1. The end-to-end scenario: the page has the title \<open>Acme Mobility\<close>, no meta
  description and three qualifying headings, the keyword is empty, no file is uploaded
  and the market query times out. The run shows the summary, the single error row and
  the three default buyers, and no lookup is made; but the distributor table handed to
  \<open>create_report\<close> is then \<open>pd.DataFrame()\<close>, and the report is the failure message
  \<open>Report generation failed: 'Country'\<close>, not the report the scenario describes.
\<close>

theorem C1_failed_market_query_report:
  "\<exists>link. workflow acme_env (lit ''https://acme.example'') [] None =
     Inr (Rendered \<lparr>site_info = sample_summary,
            market_df = \<lparr>columns = [lit ''Country'', lit ''Demand Score''],
                         rows = [[PStr (lit ''Error''), PStr (lit ''Read timed out.'')]]\<rparr>,
            buyer_df = DataFrame_records buyers,
            distributors_df = DataFrame_empty,
            report_md = lit ''Report generation failed: '' @ [39] @ lit ''Country'' @ [39],
            dl_link = link\<rparr>)"
proof -
  have 1: "scrape_site_try acme_env (lit ''https://acme.example'') = Inr sample_summary"
    by (rule sample_page_summary
          [where r = "\<lparr>status_code = 200, body_text = lit ''<html>'',
                        json_result = Inl (LibraryError (lit ''Expecting value'')),
                        http_error_msg = []\<rparr>"])
       (simp_all add: acme_env_def sample_env_def)
  have 2: "suggest_markets_try acme_env (or_default []) = Inl (LibraryError (lit ''Read timed out.''))"
    by (simp add: suggest_markets_try_def acme_env_def comtrade_url_def or_default_def)
  have 3: "buyer_source acme_env None [] = Inr (DataFrame_records buyers)"
    by (simp add: buyer_source_def fetch_buyer_list_def fetch_buyer_list_try_def)
  from workflow_failed_market [OF _ 1 2 3] show ?thesis
    by (simp add: exc_str_def market_error_table_eq failed_report_def)
qed

section \<open>The download link: encoding and decoding\<close>

lemma b64_alphabet_codes: "b64_alphabet = map b64_char_arith [0..<64]"
  by code_simp

lemma b64_char_cases:
  assumes "n < 64"
  shows "b64_char n =
    (if n < 26 then 65 + n else if n < 52 then 71 + n else if n < 62 then n - 4
     else if n = 62 then 43 else 47)"
  using assms by (simp add: b64_char_def b64_alphabet_codes b64_char_arith_def del: upt.simps)

lemma b64_index_char: "n < 64 \<Longrightarrow> b64_index (b64_char n) = Some n"
  by (auto simp add: b64_char_cases b64_index_def)

lemma b64_char_range: "n < 64 \<Longrightarrow> b64_char n < 128 \<and> b64_char n \<noteq> 61 \<and> b64_char n \<noteq> 34"
  by (auto simp add: b64_char_cases)

text \<open>The four six-bit numbers cut from three bytes, and the bytes put together again.\<close>

lemma sextets:
  "a < 256 \<Longrightarrow> a div 4 < (64::nat)"
  "a mod 4 * 16 < (64::nat)"
  "b < 256 \<Longrightarrow> a mod 4 * 16 + b div 16 < (64::nat)"
  "b mod 16 * 4 < (64::nat)"
  "c < 256 \<Longrightarrow> b mod 16 * 4 + c div 64 < (64::nat)"
  "c mod 64 < (64::nat)"
proof -
  have r4: "a mod 4 < 4" and r16: "b mod 16 < 16" by simp_all
  show "a < 256 \<Longrightarrow> a div 4 < 64" by (simp add: less_mult_imp_div_less)
  show "a mod 4 * 16 < 64" using r4 by linarith
  show "b < 256 \<Longrightarrow> a mod 4 * 16 + b div 16 < 64"
  proof -
    assume "b < 256"
    then have "b div 16 < 16" by (simp add: less_mult_imp_div_less)
    with r4 show ?thesis by linarith
  qed
  show "b mod 16 * 4 < 64" using r16 by linarith
  show "c < 256 \<Longrightarrow> b mod 16 * 4 + c div 64 < 64"
  proof -
    assume "c < 256"
    then have "c div 64 < 4" by (simp add: less_mult_imp_div_less)
    with r16 show ?thesis by linarith
  qed
  show "c mod 64 < 64" by simp
qed

lemma octets:
  fixes a b c :: nat
  shows "b < 256 \<Longrightarrow> a div 4 * 4 + (a mod 4 * 16 + b div 16) div 16 = a"
  and "b < 256 \<Longrightarrow> c < 256 \<Longrightarrow>
       (a mod 4 * 16 + b div 16) mod 16 * 16 + (b mod 16 * 4 + c div 64) div 4 = b"
  and "c < 256 \<Longrightarrow> (b mod 16 * 4 + c div 64) mod 4 * 64 + c mod 64 = c"
  and "a div 4 * 4 + (a mod 4 * 16) div 16 = a"
  and "b < 256 \<Longrightarrow> (a mod 4 * 16 + b div 16) mod 16 * 16 + (b mod 16 * 4) div 4 = b"
proof -
  have b16: "b div 16 < 16" if "b < 256" using that by (simp add: less_mult_imp_div_less)
  have c64: "c div 64 < 4" if "c < 256" using that by (simp add: less_mult_imp_div_less)
  show "b < 256 \<Longrightarrow> a div 4 * 4 + (a mod 4 * 16 + b div 16) div 16 = a"
    using b16 by simp
  show "b < 256 \<Longrightarrow> c < 256 \<Longrightarrow>
        (a mod 4 * 16 + b div 16) mod 16 * 16 + (b mod 16 * 4 + c div 64) div 4 = b"
    using b16 c64 by simp
  show "c < 256 \<Longrightarrow> (b mod 16 * 4 + c div 64) mod 4 * 64 + c mod 64 = c"
    using c64 by (simp add: div_mult_mod_eq mod_mult2_eq)
  show "a div 4 * 4 + (a mod 4 * 16) div 16 = a"
    by simp
  show "b < 256 \<Longrightarrow> (a mod 4 * 16 + b div 16) mod 16 * 16 + (b mod 16 * 4) div 4 = b"
    using b16 by simp
qed

lemma b64decode_last1:
  "p < 64 \<Longrightarrow> q < 64 \<Longrightarrow> b64decode [b64_char p, b64_char q, 61, 61] = Some [p * 4 + q div 16]"
  by (simp add: b64_index_char)

lemma b64decode_last2:
  "p < 64 \<Longrightarrow> q < 64 \<Longrightarrow> r < 64 \<Longrightarrow>
   b64decode [b64_char p, b64_char q, b64_char r, 61] =
     Some [p * 4 + q div 16, q mod 16 * 16 + r div 4]"
  using b64_char_range [of r] by (simp add: b64_index_char)

lemma b64decode_group:
  "p < 64 \<Longrightarrow> q < 64 \<Longrightarrow> r < 64 \<Longrightarrow> s < 64 \<Longrightarrow> b64decode cs = Some bs \<Longrightarrow>
   b64decode (b64_char p # b64_char q # b64_char r # b64_char s # cs) =
     Some ([p * 4 + q div 16, q mod 16 * 16 + r div 4, r mod 4 * 64 + s] @ bs)"
  using b64_char_range [of r] b64_char_range [of s] by (simp add: b64_index_char)

lemma b64decode_encode:
  "list_all (\<lambda>b. b < 256) bs \<Longrightarrow> b64decode (b64encode bs) = Some bs"
proof (induction bs rule: b64encode.induct)
  case 1
  then show ?case by simp
next
  case (2 a)
  then have a: "a < 256" by simp
  have "b64decode (b64encode [a]) = Some [a div 4 * 4 + a mod 4 * 16 div 16]"
    by (simp only: b64encode.simps b64decode_last1 [OF sextets(1) [OF a] sextets(2)])
  then show ?case by (simp only: octets(4))
next
  case (3 a b)
  then have a: "a < 256" and b: "b < 256" by simp_all
  have "b64decode (b64encode [a, b]) =
          Some [a div 4 * 4 + (a mod 4 * 16 + b div 16) div 16,
                (a mod 4 * 16 + b div 16) mod 16 * 16 + b mod 16 * 4 div 4]"
    by (simp only: b64encode.simps
          b64decode_last2 [OF sextets(1) [OF a] sextets(3) [OF b] sextets(4)])
  then show ?case by (simp only: octets(1) [OF b] octets(5) [OF b])
next
  case (4 a b c bs)
  then have a: "a < 256" and b: "b < 256" and c: "c < 256"
    and IH: "b64decode (b64encode bs) = Some bs" by simp_all
  have "b64decode (b64encode (a # b # c # bs)) =
          Some ([a div 4 * 4 + (a mod 4 * 16 + b div 16) div 16,
                 (a mod 4 * 16 + b div 16) mod 16 * 16 + (b mod 16 * 4 + c div 64) div 4,
                 (b mod 16 * 4 + c div 64) mod 4 * 64 + c mod 64] @ bs)"
    by (simp only: b64encode.simps append.simps
          b64decode_group [OF sextets(1) [OF a] sextets(3) [OF b] sextets(5) [OF c] sextets(6) IH])
  then show ?case by (simp only: octets(1) [OF b] octets(2) [OF b c] octets(3) [OF c] append.simps)
qed

lemma b64encode_ascii:
  "list_all (\<lambda>b. b < 256) bs \<Longrightarrow> list_all (\<lambda>c. c < 128 \<and> c \<noteq> 34) (b64encode bs)"
  by (induction bs rule: b64encode.induct) (simp_all add: b64_char_range sextets)

lemma bytes_decode_ascii: "list_all (\<lambda>c. c < 128) bs \<Longrightarrow> bytes_decode bs = Inr bs"
  by (induction bs) (simp_all add: decoded_def)

text \<open>A code point is the sum of the six-bit pieces its encoding spreads over the bytes.\<close>

lemma recompose2: "c div 64 * 64 + c mod 64 = (c::nat)"
  by simp

lemma recompose3: "c div 4096 * 4096 + c div 64 mod 64 * 64 + c mod 64 = (c::nat)"
proof -
  have "c mod 4096 = 64 * (c div 64 mod 64) + c mod 64"
    using mod_mult2_eq [of c 64 64] by simp
  moreover have "c div 4096 * 4096 + c mod 4096 = c" by simp
  ultimately show ?thesis by linarith
qed

lemma recompose4:
  "c div 262144 * 262144 + c div 4096 mod 64 * 4096 + c div 64 mod 64 * 64 + c mod 64 = (c::nat)"
proof -
  have "c mod 4096 = 64 * (c div 64 mod 64) + c mod 64"
    using mod_mult2_eq [of c 64 64] by simp
  moreover have "c mod 262144 = 4096 * (c div 4096 mod 64) + c mod 4096"
    using mod_mult2_eq [of c 4096 64] by simp
  moreover have "c div 262144 * 262144 + c mod 262144 = c" by simp
  ultimately show ?thesis by linarith
qed

lemma lead_bounds:
  "c < 0x800 \<Longrightarrow> c div 64 < (32::nat)"
  "c < 0x10000 \<Longrightarrow> c div 4096 < (16::nat)"
  "c < 0x110000 \<Longrightarrow> c div 262144 < (8::nat)"
  by (simp_all add: less_mult_imp_div_less)

lemma bytes_decode_utf8_bytes:
  assumes "encodable c"
  shows "bytes_decode (utf8_bytes c @ bs) = decoded c (bytes_decode bs)"
proof -
  consider "c < 0x80" | "0x80 \<le> c" "c < 0x800" | "0x800 \<le> c" "c < 0x10000"
    | "0x10000 \<le> c" "c < 0x110000"
    using assms unfolding encodable_def by linarith
  then show ?thesis
  proof cases
    case 1
    then show ?thesis by (simp add: utf8_bytes_def)
  next
    case 2
    have m: "c mod 64 < 64" by simp
    from 2 lead_bounds(1) [of c] m show ?thesis
      by (simp add: utf8_bytes_def continuation_def recompose2)
  next
    case 3
    have m: "c mod 64 < 64" "c div 64 mod 64 < 64" by simp_all
    from 3 lead_bounds(2) [of c] m assms show ?thesis
      by (simp add: utf8_bytes_def continuation_def recompose3)
  next
    case 4
    have m: "c mod 64 < 64" "c div 64 mod 64 < 64" "c div 4096 mod 64 < 64" by simp_all
    from 4 lead_bounds(3) [of c] m show ?thesis
      by (simp add: utf8_bytes_def continuation_def recompose4)
  qed
qed

lemma utf8_bytes_byte: "encodable c \<Longrightarrow> list_all (\<lambda>b. b < 256) (utf8_bytes c)"
proof -
  assume "encodable c"
  then have c: "c < 0x110000" by (auto simp: encodable_def)
  have m: "c mod 64 < 64" "c div 64 mod 64 < 64" "c div 4096 mod 64 < 64" by simp_all
  have "c < 0x800 \<Longrightarrow> c div 64 < 32" "c < 0x10000 \<Longrightarrow> c div 4096 < 16" "c div 262144 < 8"
    using c lead_bounds by auto
  with m show ?thesis
    unfolding utf8_bytes_def by (auto simp del: mod_less_divisor)
qed

lemma utf8_encode_from_decode:
  "utf8_encode_from i s = Inr bs \<Longrightarrow> bytes_decode bs = Inr s \<and> list_all (\<lambda>b. b < 256) bs"
proof (induction s arbitrary: i bs)
  case Nil
  then show ?case by simp
next
  case (Cons c cs)
  from Cons.prems obtain bs' where enc: "encodable c"
    and rest: "utf8_encode_from (Suc i) cs = Inr bs'" and bs: "bs = utf8_bytes c @ bs'"
    by (auto split: if_splits sum.splits)
  from Cons.IH [OF rest] enc show ?case
    by (simp add: bs bytes_decode_utf8_bytes decoded_def utf8_bytes_byte)
qed

lemma utf8_encode_from_encodable:
  "list_all encodable s \<Longrightarrow> \<exists>bs. utf8_encode_from i s = Inr bs"
proof (induction s arbitrary: i)
  case Nil
  then show ?case by simp
next
  case (Cons c cs)
  then obtain bs where "utf8_encode_from (Suc i) cs = Inr bs" by fastforce
  with Cons.prems show ?case by simp
qed

lemma utf8_encode_from_surrogate:
  "\<not> list_all encodable s \<Longrightarrow>
   \<exists>j c. utf8_encode_from i s = Inl (UnicodeEncodeError j c) \<and> c \<in> set s \<and> \<not> encodable c"
proof (induction s arbitrary: i)
  case Nil
  then show ?case by simp
next
  case (Cons c cs)
  show ?case
  proof (cases "encodable c")
    case False
    then show ?thesis by auto
  next
    case True
    with Cons.prems have "\<not> list_all encodable cs" by simp
    from Cons.IH [OF this, of "Suc i"] True show ?thesis by auto
  qed
qed

lemma link_payload_link:
  assumes "list_all (\<lambda>c. c < 128 \<and> c \<noteq> 34) b64"
  shows \<open>link_payload (lit ''<a href="data:file/txt;base64,'' @ b64 @ lit ''" download="'' @ rest) = b64\<close>
proof -
  have "34 \<notin> set b64" using assms by (auto simp: list_all_iff)
  then have "takeWhile (\<lambda>c. c \<noteq> 34) (b64 @ 34 # xs) = b64" for xs
    by (induction b64) auto
  then show ?thesis
    by (simp add: link_payload_def lit_def)
qed

lemma download_link_encodable:
  assumes "str_encode report = Inr bs"
  shows \<open>download_link env report filename link_text =
           Inr (lit ''<a href="data:file/txt;base64,'' @ b64encode bs @ lit ''" download="'' @
                filename @ lit ''">'' @ link_text @ lit ''</a>'')\<close>
    and \<open>decode_link (lit ''<a href="data:file/txt;base64,'' @ b64encode bs @ lit ''" download="'' @
                filename @ lit ''">'' @ link_text @ lit ''</a>'') = Some report\<close>
proof -
  from assms have dec: "bytes_decode bs = Inr report" and bytes: "list_all (\<lambda>b. b < 256) bs"
    using utf8_encode_from_decode unfolding str_encode_def by blast+
  have ascii: "list_all (\<lambda>c. c < 128 \<and> c \<noteq> 34) (b64encode bs)"
    using bytes by (rule b64encode_ascii)
  then have "list_all (\<lambda>c. c < 128) (b64encode bs)"
    by (simp add: list_all_iff)
  then have "bytes_decode (b64encode bs) = Inr (b64encode bs)"
    by (rule bytes_decode_ascii)
  with assms show \<open>download_link env report filename link_text =
           Inr (lit ''<a href="data:file/txt;base64,'' @ b64encode bs @ lit ''" download="'' @
                filename @ lit ''">'' @ link_text @ lit ''</a>'')\<close>
    by (simp add: download_link_def download_link_try_def)
  show \<open>decode_link (lit ''<a href="data:file/txt;base64,'' @ b64encode bs @ lit ''" download="'' @
                filename @ lit ''">'' @ link_text @ lit ''</a>'') = Some report\<close>
    by (simp add: decode_link_def link_payload_link [OF ascii] b64decode_encode [OF bytes] dec)
qed

text \<open>
  C9. For every report text: when the text has a UTF-8 encoding (no surrogate code
  point), \<open>download_link\<close> returns the inline data link around the base64 of the
  encoded text, and reading the link back (the payload, base64 decoding, UTF-8
  decoding) gives exactly the text; when the encoding fails, it returns the message
  \<open>Error generating download link: ...\<close>; in both cases it returns and does not raise.
\<close>

theorem C9_download_link_round_trip:
  \<open>(list_all encodable report \<longrightarrow>
      (\<exists>bs link. str_encode report = Inr bs \<and>
         link = lit ''<a href="data:file/txt;base64,'' @ b64encode bs @ lit ''" download="'' @
                filename @ lit ''">'' @ link_text @ lit ''</a>'' \<and>
         download_link env report filename link_text = Inr link \<and>
         decode_link link = Some report)) \<and>
   (\<not> list_all encodable report \<longrightarrow>
      (\<exists>e. str_encode report = Inl e \<and>
         download_link env report filename link_text =
           Inr (lit ''Error generating download link: '' @ exc_str env e))) \<and>
   (\<exists>s. download_link env report filename link_text = Inr s)\<close>
proof (cases "list_all encodable report")
  case True
  then obtain bs where bs: "str_encode report = Inr bs"
    using utf8_encode_from_encodable unfolding str_encode_def by blast
  from download_link_encodable [OF bs] True bs show ?thesis
    by simp
next
  case False
  then obtain j c where "str_encode report = Inl (UnicodeEncodeError j c)"
    using utf8_encode_from_surrogate unfolding str_encode_def by blast
  with False show ?thesis
    by (simp add: download_link_def download_link_try_def)
qed

theorem C9_download_link_round_trip_witness:
  \<open>list_all encodable (lit ''Hi'' @ [0xE9, 0x1F4E5]) \<and>
   download_link acme_env (lit ''Hi'' @ [0xE9, 0x1F4E5]) (lit ''export_report.md'') (lit ''Get'') =
     Inr (lit ''<a href="data:file/txt;base64,SGnDqfCfk6U=" download="export_report.md">Get</a>'') \<and>
   decode_link (lit ''<a href="data:file/txt;base64,SGnDqfCfk6U=" download="export_report.md">Get</a>'') =
     Some (lit ''Hi'' @ [0xE9, 0x1F4E5]) \<and>
   \<not> list_all encodable (lit ''Hi'' @ [0xD800]) \<and>
   download_link acme_env (lit ''Hi'' @ [0xD800]) (lit ''export_report.md'') (lit ''Get'') =
     Inr (lit ''Error generating download link: operation failed'')\<close>
proof -
  have enc: "list_all encodable (lit ''Hi'' @ [0xE9, 0x1F4E5])"
    by (simp add: lit_def encodable_def)
  have bs: "str_encode (lit ''Hi'' @ [0xE9, 0x1F4E5]) = Inr [72, 105, 195, 169, 240, 159, 147, 165]"
    by (simp add: str_encode_def lit_def encodable_def utf8_bytes_def)
  have b64: "b64encode [72, 105, 195, 169, 240, 159, 147, 165] = lit ''SGnDqfCfk6U=''"
    by (simp add: b64_char_cases lit_def)
  have bad: "\<not> list_all encodable (lit ''Hi'' @ [0xD800])"
    by (simp add: lit_def encodable_def)
  have err: "str_encode (lit ''Hi'' @ [0xD800]) = Inl (UnicodeEncodeError 2 0xD800)"
    by (simp add: str_encode_def lit_def encodable_def)
  have msg: "exc_str acme_env (UnicodeEncodeError 2 0xD800) = lit ''operation failed''"
    by (simp add: exc_str_def acme_env_def sample_env_def)
  from C9_download_link_round_trip [where report = "lit ''Hi'' @ [0xE9, 0x1F4E5]"
      and filename = "lit ''export_report.md''" and link_text = "lit ''Get''" and env = acme_env]
    enc bs b64
  have good: \<open>download_link acme_env (lit ''Hi'' @ [0xE9, 0x1F4E5]) (lit ''export_report.md'') (lit ''Get'') =
     Inr (lit ''<a href="data:file/txt;base64,SGnDqfCfk6U=" download="export_report.md">Get</a>'') \<and>
   decode_link (lit ''<a href="data:file/txt;base64,SGnDqfCfk6U=" download="export_report.md">Get</a>'') =
     Some (lit ''Hi'' @ [0xE9, 0x1F4E5])\<close>
    by (simp add: lit_def)
  from C9_download_link_round_trip [where report = "lit ''Hi'' @ [0xD800]"
      and filename = "lit ''export_report.md''" and link_text = "lit ''Get''" and env = acme_env]
    bad err msg
  have \<open>download_link acme_env (lit ''Hi'' @ [0xD800]) (lit ''export_report.md'') (lit ''Get'') =
     Inr (lit ''Error generating download link: operation failed'')\<close>
    by (simp add: lit_def)
  with enc good bad show ?thesis by blast
qed

end
